theory Spec2Isabelle
  imports Complex_Main "HOL-Library.Word"
begin

section \<open>TinyG temperature controller (firmware/temperature/tinyg_tc.c)\<close>

text \<open>
  A shallow embedding of the heater state machine, the PID calculation, the temperature
  sensor and the tick scheduler of \<^verbatim>\<open>tinyg_tc.c\<close>.

  \<^item> The C globals \<^verbatim>\<open>device\<close>, \<^verbatim>\<open>heater\<close>, \<^verbatim>\<open>pid\<close> and \<^verbatim>\<open>sensor\<close> are records; the
    field \<^verbatim>\<open>heater.state\<close> is \<open>heater_state\<close>, and so on. Every function takes the
    globals it touches and returns them updated, next to its return value.
  \<^item> \<^verbatim>\<open>uint8_t\<close> fields are \<open>8 word\<close>: \<open>+\<close> and \<open>-\<close> wrap around as in C.
  \<^item> \<^verbatim>\<open>double\<close> is modelled by \<open>real\<close>; there is no infinity and no NaN. The
    arithmetic of the sensor and of the PID calculation is exact. The one sum whose
    rounding decides a branch, \<^verbatim>\<open>heater.regulation_timer += HEATER_TICK_SECONDS\<close>, is
    rounded as the target rounds a \<^verbatim>\<open>double\<close> (see \<open>double_add\<close> below).
  \<^item> The enumerations and the numeric constants come from \<^verbatim>\<open>tinyg_tc.h\<close> and
    \<^verbatim>\<open>kinen_core.h\<close>, which are not among the sources. The enumerations are datatypes
    with the enumerators that \<^verbatim>\<open>tinyg_tc.c\<close> names; the numeric constants are the
    fields of the record \<open>tc_config\<close>, a parameter of every function that uses one.
    \<^verbatim>\<open>DBL_MANT_DIG\<close>, of the target's \<^verbatim>\<open>float.h\<close>, is among them.
\<close>

type_synonym u8 = "8 word"

subsection \<open>Rounding of \<^verbatim>\<open>double\<close> sums\<close>

text \<open>
  A \<^verbatim>\<open>double\<close> has \<^verbatim>\<open>DBL_MANT_DIG\<close> significant bits: 24 with avr-gcc, where
  \<^verbatim>\<open>double\<close> is the 32-bit format, and 53 where it is the 64-bit format. A sum is
  rounded to the nearest value with that many significant bits, ties to the even one. The
  exponent range is not modelled (no overflow, no subnormal numbers).

  \<open>bit_length n\<close> is the number of binary digits of \<open>n\<close>; \<open>fp_exponent x\<close> is the
  \<open>e\<close> with \<open>2 ^ e \<le> x < 2 ^ (e + 1)\<close>, for \<open>x > 0\<close>; \<open>fp_round p x\<close> is the value
  with \<open>p\<close> significant bits nearest to \<open>x\<close>.
\<close>

fun bit_length :: "nat \<Rightarrow> nat" where
  "bit_length n = (if n = 0 then 0 else Suc (bit_length (n div 2)))"

declare bit_length.simps [simp del]

definition pow2 :: "int \<Rightarrow> real" where
  "pow2 k = (if 0 \<le> k then 2 ^ nat k else 1 / 2 ^ nat (- k))"

definition fp_exponent :: "real \<Rightarrow> int" where
  "fp_exponent x =
     (if 1 \<le> x then int (bit_length (nat \<lfloor>x\<rfloor>)) - 1
      else - int (bit_length (nat (\<lceil>1 / x\<rceil> - 1))))"

definition round_half_even :: "real \<Rightarrow> int" where
  "round_half_even y =
     (let f = \<lfloor>y\<rfloor>; r = y - of_int f
      in if r < 1 / 2 then f else if 1 / 2 < r then f + 1 else if even f then f else f + 1)"

definition fp_round :: "nat \<Rightarrow> real \<Rightarrow> real" where
  "fp_round p x =
     (if x = 0 then 0
      else let k = fp_exponent \<bar>x\<bar> - (int p - 1)
           in sgn x * of_int (round_half_even (\<bar>x\<bar> / pow2 k)) * pow2 k)"

definition double_add :: "nat \<Rightarrow> real \<Rightarrow> real \<Rightarrow> real" where
  "double_add p x y = fp_round p (x + y)"

subsection \<open>Constants of the missing headers\<close>

datatype status_code = SC_OK | SC_ERROR | SC_EAGAIN | SC_NOOP | SC_INVALID_ADDRESS

datatype heater_state_t =
  HEATER_UNINIT | HEATER_OFF | HEATER_ON | HEATER_HEATING | HEATER_AT_TEMPERATURE
  | HEATER_COOLING | HEATER_SHUTDOWN

datatype heater_code_t = HEATER_OK | HEATER_AMBIENT_TIMED_OUT | HEATER_REGULATION_TIMED_OUT

datatype pid_state_t = PID_OFF

datatype pid_code_t = PID_OK

datatype sensor_state_t =
  SENSOR_UNINIT | SENSOR_HAS_NO_DATA | SENSOR_HAS_DATA | SENSOR_SHUTDOWN

datatype sensor_code_t =
  SENSOR_OK | SENSOR_BAD_READINGS | SENSOR_DISCONNECTED | SENSOR_NO_POWER

record tc_config =
  DBL_MANT_DIG :: nat
  HEATER_TICK_SECONDS :: real
  HEATER_AMBIENT_TIMEOUT :: real
  HEATER_REGULATION_TIMEOUT :: real
  HEATER_AMBIENT_TEMPERATURE :: real
  HEATER_OVERHEAT_TEMPERATURE :: real
  PID_MAX_OUTPUT :: real
  PID_MIN_OUTPUT :: real
  PID_Kp :: real
  PID_Ki :: real
  PID_Kd :: real
  SENSOR_SAMPLES_PER_READING :: u8
  SENSOR_RETRIES :: u8
  SENSOR_VARIANCE_RANGE :: real
  SENSOR_DISCONNECTED_TEMPERATURE :: real
  SENSOR_NO_POWER_TEMPERATURE :: real
  ABSOLUTE_ZERO :: real
  SURFACE_OF_THE_SUN :: real
  HOTTER_THAN_THE_SUN :: real

subsection \<open>The global structs\<close>

record Device =
  device_tick_flag :: u8
  device_tick_100ms_count :: u8
  device_tick_1sec_count :: u8
  device_pwm_freq :: real

record Heater =
  heater_state :: heater_state_t
  heater_code :: heater_code_t
  heater_temperature :: real
  heater_setpoint :: real
  heater_regulation_timer :: real
  heater_ambient_timeout :: real
  heater_regulation_timeout :: real
  heater_ambient_temperature :: real
  heater_overheat_temperature :: real

record PIDstruct =
  pid_state :: pid_state_t
  pid_code :: pid_code_t
  pid_temperature :: real
  pid_setpoint :: real
  pid_error :: real
  pid_prev_error :: real
  pid_integral :: real
  pid_derivative :: real
  pid_output :: real
  pid_max :: real
  pid_min :: real
  pid_Kp :: real
  pid_Ki :: real
  pid_Kd :: real

record TemperatureSensor =
  sensor_state :: sensor_state_t
  sensor_code :: sensor_code_t
  sensor_samples_per_reading :: u8
  sensor_samples :: u8
  sensor_retries :: u8
  sensor_temperature :: real
  sensor_previous_temp :: real
  sensor_accumulator :: real
  sensor_variance :: real
  sensor_disconnect_temperature :: real
  sensor_no_power_temperature :: real

subsection \<open>Temperature sensor\<close>

text \<open>
  \<^verbatim>\<open>sensor_init\<close>: \<^verbatim>\<open>memset\<close> zeroes the struct, then the configured fields are set.
  The zeroed \<^verbatim>\<open>code\<close> is taken to be \<open>SENSOR_OK\<close>, the code that \<^verbatim>\<open>sensor_callback\<close>
  sets when there is nothing to report.
\<close>

definition sensor_init :: "tc_config \<Rightarrow> TemperatureSensor" where
  "sensor_init cfg =
     \<lparr> sensor_state = SENSOR_HAS_NO_DATA,
       sensor_code = SENSOR_OK,
       sensor_samples_per_reading = SENSOR_SAMPLES_PER_READING cfg,
       sensor_samples = 0,
       sensor_retries = SENSOR_RETRIES cfg,
       sensor_temperature = ABSOLUTE_ZERO cfg,
       sensor_previous_temp = 0,
       sensor_accumulator = 0,
       sensor_variance = SENSOR_VARIANCE_RANGE cfg,
       sensor_disconnect_temperature = SENSOR_DISCONNECTED_TEMPERATURE cfg,
       sensor_no_power_temperature = SENSOR_NO_POWER_TEMPERATURE cfg \<rparr>"

definition sensor_get_temperature :: "tc_config \<Rightarrow> TemperatureSensor \<Rightarrow> real" where
  "sensor_get_temperature cfg s =
     (if sensor_state s = SENSOR_HAS_DATA then sensor_temperature s
      else SURFACE_OF_THE_SUN cfg)"

definition sensor_get_state :: "TemperatureSensor \<Rightarrow> sensor_state_t" where
  "sensor_get_state s = sensor_state s"

definition sensor_get_code :: "TemperatureSensor \<Rightarrow> sensor_code_t" where
  "sensor_get_code s = sensor_code s"

definition sensor_start_temperature_reading :: "TemperatureSensor \<Rightarrow> TemperatureSensor" where
  "sensor_start_temperature_reading s = s\<lparr>sensor_samples := 0\<rparr>"

subsection \<open>Heater\<close>

text \<open>
  \<^verbatim>\<open>heater_init\<close>: \<^verbatim>\<open>memset\<close> zeroes the struct (temperature, setpoint and
  regulation timer become 0; the zeroed \<^verbatim>\<open>code\<close> is taken to be \<open>HEATER_OK\<close>, the
  no-fault code), then the four configured fields and the state are set.
\<close>

definition heater_init :: "tc_config \<Rightarrow> Heater" where
  "heater_init cfg =
     \<lparr> heater_state = HEATER_OFF,
       heater_code = HEATER_OK,
       heater_temperature = 0,
       heater_setpoint = 0,
       heater_regulation_timer = 0,
       heater_ambient_timeout = HEATER_AMBIENT_TIMEOUT cfg,
       heater_regulation_timeout = HEATER_REGULATION_TIMEOUT cfg,
       heater_ambient_temperature = HEATER_AMBIENT_TEMPERATURE cfg,
       heater_overheat_temperature = HEATER_OVERHEAT_TEMPERATURE cfg \<rparr>"

text \<open>
  \<^verbatim>\<open>heater_turn_on\<close>: a \<^verbatim>\<open>switch\<close> on the state. \<^verbatim>\<open>HEATER_UNINIT\<close> returns
  \<^verbatim>\<open>SC_ERROR\<close>; \<^verbatim>\<open>HEATER_SHUTDOWN\<close> calls \<^verbatim>\<open>heater_init\<close> and falls through to the
  cases \<^verbatim>\<open>HEATER_OFF\<close> and \<^verbatim>\<open>HEATER_COOLING\<close>, which set the state to \<^verbatim>\<open>HEATER_ON\<close>;
  the other states have no case.
\<close>

definition heater_turn_on :: "tc_config \<Rightarrow> Heater \<Rightarrow> status_code \<times> Heater" where
  "heater_turn_on cfg h =
     (case heater_state h of
        HEATER_UNINIT \<Rightarrow> (SC_ERROR, h)
      | HEATER_SHUTDOWN \<Rightarrow> (SC_OK, (heater_init cfg)\<lparr>heater_state := HEATER_ON\<rparr>)
      | HEATER_OFF \<Rightarrow> (SC_OK, h\<lparr>heater_state := HEATER_ON\<rparr>)
      | HEATER_COOLING \<Rightarrow> (SC_OK, h\<lparr>heater_state := HEATER_ON\<rparr>)
      | _ \<Rightarrow> (SC_OK, h))"

definition heater_turn_off :: "Heater \<Rightarrow> status_code \<times> Heater" where
  "heater_turn_off h =
     (case heater_state h of
        HEATER_UNINIT \<Rightarrow> (SC_ERROR, h)
      | HEATER_ON \<Rightarrow> (SC_OK, h\<lparr>heater_state := HEATER_OFF\<rparr>)
      | HEATER_HEATING \<Rightarrow> (SC_OK, h\<lparr>heater_state := HEATER_OFF\<rparr>)
      | HEATER_AT_TEMPERATURE \<Rightarrow> (SC_OK, h\<lparr>heater_state := HEATER_OFF\<rparr>)
      | _ \<Rightarrow> (SC_OK, h))"

text \<open>
  \<^verbatim>\<open>heater_callback\<close>, the 100 ms tick of the heater. It works on the globals
  \<^verbatim>\<open>sensor\<close> (whose sample count it resets) and \<^verbatim>\<open>heater\<close>; the result is the returned
  code and the two structs. The regulation timer grows by a rounded addition.
\<close>

definition heater_callback ::
  "tc_config \<Rightarrow> TemperatureSensor \<times> Heater \<Rightarrow> heater_code_t \<times> TemperatureSensor \<times> Heater" where
  "heater_callback cfg sh =
     (let s = fst sh;
          h = (snd sh)\<lparr>heater_code := HEATER_OK\<rparr>
      in
      if heater_state h = HEATER_UNINIT \<or> heater_state h = HEATER_OFF
           \<or> heater_state h = HEATER_SHUTDOWN
      then (heater_code h, s, h)
      else
        let s1 = sensor_start_temperature_reading s in
        if sensor_get_state s1 \<noteq> SENSOR_HAS_DATA then (heater_code h, s1, h)
        else
          let h1 = h\<lparr>heater_temperature := sensor_get_temperature cfg s1\<rparr> in
          if heater_state h1 = HEATER_COOLING then (heater_code h1, s1, h1)
          else if heater_state h1 = HEATER_ON then
            (let h2 = h1\<lparr>heater_regulation_timer := 0, heater_state := HEATER_HEATING\<rparr>
             in (heater_code h2, s1, h2))
          else if heater_state h1 = HEATER_HEATING then
            (let h2 = h1\<lparr>heater_regulation_timer :=
                          double_add (DBL_MANT_DIG cfg) (heater_regulation_timer h1)
                            (HEATER_TICK_SECONDS cfg)\<rparr>
             in
             if heater_temperature h2 < heater_ambient_temperature h2
                  \<and> heater_regulation_timer h2 > heater_ambient_timeout h2
             then
               (let h3 = h2\<lparr>heater_state := HEATER_SHUTDOWN,
                            heater_code := HEATER_AMBIENT_TIMED_OUT\<rparr>
                in (heater_code h3, s1, h3))
             else if heater_temperature h2 < heater_setpoint h2
                  \<and> heater_regulation_timer h2 > heater_regulation_timeout h2
             then
               (let h3 = h2\<lparr>heater_state := HEATER_SHUTDOWN,
                            heater_code := HEATER_REGULATION_TIMED_OUT\<rparr>
                in (heater_code h3, s1, h3))
             else (heater_code h2, s1, h2))
          else (heater_code h1, s1, h1))"

text \<open>
  \<open>heater_ticks cfg n\<close>: the globals after \<open>n\<close> consecutive calls of
  \<^verbatim>\<open>heater_callback\<close> with nothing else running in between.
\<close>

fun heater_ticks :: "tc_config \<Rightarrow> nat \<Rightarrow> TemperatureSensor \<times> Heater \<Rightarrow> TemperatureSensor \<times> Heater" where
  "heater_ticks cfg 0 sh = sh"
| "heater_ticks cfg (Suc n) sh = snd (heater_callback cfg (heater_ticks cfg n sh))"

text \<open>
  \<open>timer_run p d n t\<close>: the regulation timer after \<open>n\<close> additions of the tick period
  \<open>d\<close> to \<open>t\<close>. \<open>timers_within p d b n t\<close>: the timer is at most \<open>b\<close> before and after
  each of these \<open>n\<close> additions.
\<close>

fun timer_run :: "nat \<Rightarrow> real \<Rightarrow> nat \<Rightarrow> real \<Rightarrow> real" where
  "timer_run p d 0 t = t"
| "timer_run p d (Suc n) t = timer_run p d n (double_add p t d)"

fun timers_within :: "nat \<Rightarrow> real \<Rightarrow> real \<Rightarrow> nat \<Rightarrow> real \<Rightarrow> bool" where
  "timers_within p d b 0 t = (t \<le> b)"
| "timers_within p d b (Suc n) t = (t \<le> b \<and> timers_within p d b n (double_add p t d))"

subsection \<open>Sampling\<close>

text \<open>
  \<^verbatim>\<open>SAMPLE(a)\<close> is a macro: one reading of the thermocouple, converted to a temperature
  (\<^verbatim>\<open>adc_read(a) * SENSOR_SLOPE + SENSOR_OFFSET\<close>; the variant that is active in the
  source reads the constant 200 in place of the ADC). Here \<open>SAMPLE\<close> is a function from
  the number of readings taken so far to the temperature that the next reading gives, and
  that number is passed along with the sensor struct. The active variant of the macro is
  the constant function.

  \<^verbatim>\<open>_sensor_sample\<close>: the first sample of a period is taken as it is. Otherwise the loop
  \<^verbatim>\<open>for (i = sensor.retries; i > 0; --i)\<close> tests the sample in hand and, when it is
  outside the variance range, takes another one; \<open>sensor_sample_loop\<close> is that loop, its
  first argument the value of \<^verbatim>\<open>i\<close>. After the loop the sample in hand is dropped
  and \<^verbatim>\<open>HOTTER_THAN_THE_SUN\<close> is returned.
\<close>

fun sensor_sample_loop ::
  "tc_config \<Rightarrow> (nat \<Rightarrow> real) \<Rightarrow> nat \<Rightarrow> real \<Rightarrow> nat \<times> TemperatureSensor
     \<Rightarrow> real \<times> nat \<times> TemperatureSensor" where
  "sensor_sample_loop cfg SAMPLE 0 sample (k, s) = (HOTTER_THAN_THE_SUN cfg, k, s)"
| "sensor_sample_loop cfg SAMPLE (Suc i) sample (k, s) =
     (if \<bar>sample - sensor_previous_temp s\<bar> < sensor_variance s
      then (sample, k, s\<lparr>sensor_previous_temp := sample\<rparr>)
      else sensor_sample_loop cfg SAMPLE i (SAMPLE k) (Suc k, s))"

definition sensor_sample ::
  "tc_config \<Rightarrow> (nat \<Rightarrow> real) \<Rightarrow> bool \<Rightarrow> nat \<times> TemperatureSensor
     \<Rightarrow> real \<times> nat \<times> TemperatureSensor" where
  "sensor_sample cfg SAMPLE new_period ks =
     (let k = fst ks; s = snd ks; sample = SAMPLE k
      in
      if new_period then (sample, Suc k, s\<lparr>sensor_previous_temp := sample\<rparr>)
      else sensor_sample_loop cfg SAMPLE (unat (sensor_retries s)) sample (Suc k, s))"

text \<open>
  \<^verbatim>\<open>sensor_callback\<close>, the 10 ms tick of the sensor. \<^verbatim>\<open>++sensor.samples\<close> is an
  8-bit increment. The average divides by the sample count converted to \<^verbatim>\<open>double\<close>
  (a count of 0 can be reached only by wrapping around from 255, with
  \<^verbatim>\<open>samples_per_reading\<close> = 0; the division is then by zero, which is 0 in HOL).
\<close>

definition sensor_callback ::
  "tc_config \<Rightarrow> (nat \<Rightarrow> real) \<Rightarrow> nat \<times> TemperatureSensor
     \<Rightarrow> sensor_code_t \<times> nat \<times> TemperatureSensor" where
  "sensor_callback cfg SAMPLE ks =
     (let k = fst ks;
          s = (snd ks)\<lparr>sensor_code := SENSOR_OK\<rparr>
      in
      if sensor_state s = SENSOR_UNINIT \<or> sensor_state s = SENSOR_SHUTDOWN
      then (sensor_code s, k, s)
      else
        let new_period = (sensor_samples s = 0);
            s1 = (if new_period then s\<lparr>sensor_accumulator := 0\<rparr> else s);
            r = sensor_sample cfg SAMPLE new_period (k, s1);
            temperature = fst r; k2 = fst (snd r); s2 = snd (snd r)
        in
        if temperature > SURFACE_OF_THE_SUN cfg then
          (let s3 = s2\<lparr>sensor_state := SENSOR_SHUTDOWN, sensor_code := SENSOR_BAD_READINGS\<rparr>
           in (sensor_code s3, k2, s3))
        else
          let s3 = s2\<lparr>sensor_accumulator := sensor_accumulator s2 + temperature\<rparr>;
              s4 = s3\<lparr>sensor_samples := sensor_samples s3 + 1\<rparr>
          in
          if sensor_samples s4 < sensor_samples_per_reading s4 then (sensor_code s4, k2, s4)
          else
            let s5 = s4\<lparr>sensor_temperature :=
                          sensor_accumulator s4 / real (unat (sensor_samples s4))\<rparr>;
                s6 = (if sensor_temperature s5 > SENSOR_DISCONNECTED_TEMPERATURE cfg
                      then s5\<lparr>sensor_state := SENSOR_HAS_NO_DATA,
                              sensor_code := SENSOR_DISCONNECTED\<rparr>
                      else if sensor_temperature s5 < SENSOR_NO_POWER_TEMPERATURE cfg
                      then s5\<lparr>sensor_state := SENSOR_HAS_NO_DATA,
                              sensor_code := SENSOR_NO_POWER\<rparr>
                      else s5\<lparr>sensor_state := SENSOR_HAS_DATA\<rparr>)
            in (sensor_code s6, k2, s6))"

text \<open>
  \<open>sensor_ticks cfg SAMPLE n\<close>: the reading count and the sensor after \<open>n\<close> consecutive
  calls of \<^verbatim>\<open>sensor_callback\<close>.
\<close>

fun sensor_ticks ::
  "tc_config \<Rightarrow> (nat \<Rightarrow> real) \<Rightarrow> nat \<Rightarrow> nat \<times> TemperatureSensor \<Rightarrow> nat \<times> TemperatureSensor" where
  "sensor_ticks cfg SAMPLE 0 ks = ks"
| "sensor_ticks cfg SAMPLE (Suc n) ks =
     snd (sensor_callback cfg SAMPLE (sensor_ticks cfg SAMPLE n ks))"

subsection \<open>PID\<close>

text \<open>The four macros defined in the source before \<^verbatim>\<open>pid_callback\<close>.\<close>

definition epsilon :: real where "epsilon = 0.01"
definition dt :: real where "dt = 0.01"
definition MAX_sat :: real where "MAX_sat = 4"
definition MIN_sat :: real where "MIN_sat = - 4"

definition pid_init :: "tc_config \<Rightarrow> PIDstruct" where
  "pid_init cfg =
     \<lparr> pid_state = PID_OFF,
       pid_code = PID_OK,
       pid_temperature = 0,
       pid_setpoint = 0,
       pid_error = 0,
       pid_prev_error = 0,
       pid_integral = 0,
       pid_derivative = 0,
       pid_output = 0,
       pid_max = PID_MAX_OUTPUT cfg,
       pid_min = PID_MIN_OUTPUT cfg,
       pid_Kp = PID_Kp cfg,
       pid_Ki = PID_Ki cfg,
       pid_Kd = PID_Kd cfg \<rparr>"

definition pid_calc :: "PIDstruct \<Rightarrow> real \<Rightarrow> real \<Rightarrow> real \<times> PIDstruct" where
  "pid_calc p setpoint temperature =
     (let p1 = p\<lparr>pid_error := setpoint - temperature\<rparr>;
          p2 = (if \<bar>pid_error p1\<bar> > epsilon
                then p1\<lparr>pid_integral := pid_integral p1 + pid_error p1 * dt\<rparr>
                else p1);
          p3 = p2\<lparr>pid_derivative := (pid_error p2 - pid_prev_error p2) / dt\<rparr>;
          p4 = p3\<lparr>pid_output := pid_Kp p3 * pid_error p3 + pid_Ki p3 * pid_integral p3
                                  + pid_Kd p3 * pid_derivative p3\<rparr>;
          p5 = (if pid_output p4 > MAX_sat then p4\<lparr>pid_output := MAX_sat\<rparr>
                else if pid_output p4 < MIN_sat then p4\<lparr>pid_output := MIN_sat\<rparr>
                else p4);
          p6 = p5\<lparr>pid_prev_error := pid_error p5\<rparr>
      in (pid_output p6, p6))"

definition pid_callback :: "Heater \<Rightarrow> PIDstruct \<Rightarrow> pid_code_t \<times> PIDstruct" where
  "pid_callback h p = (PID_OK, snd (pid_calc p (heater_setpoint h) (heater_temperature h)))"

subsection \<open>Tick scheduler\<close>

text \<open>
  The globals that a tick reaches: \<^verbatim>\<open>device\<close>, \<^verbatim>\<open>sensor\<close>, \<^verbatim>\<open>heater\<close> and the number
  of readings taken so far. The three fields \<open>runs_10ms\<close>, \<open>runs_100ms\<close> and
  \<open>runs_1sec\<close> are not in the source: they count the calls of \<^verbatim>\<open>tick_10ms\<close>,
  \<^verbatim>\<open>tick_100ms\<close> and \<^verbatim>\<open>tick_1sec\<close>, so that a statement can say how often a handler
  has run. No function reads them.
\<close>

record Machine =
  device :: Device
  sensor :: TemperatureSensor
  heater :: Heater
  readings :: nat
  runs_10ms :: nat
  runs_100ms :: nat
  runs_1sec :: nat

text \<open>\<^verbatim>\<open>tick_init\<close> (the writes to the timer registers are left out).\<close>

definition tick_init :: "Device \<Rightarrow> Device" where
  "tick_init d = d\<lparr>device_tick_100ms_count := 10, device_tick_1sec_count := 10\<rparr>"

text \<open>\<^verbatim>\<open>ISR(TIMER0_OVF_vect)\<close>: \<^verbatim>\<open>true\<close> is 1, \<^verbatim>\<open>false\<close> is 0.\<close>

definition TIMER0_OVF_vect :: "Device \<Rightarrow> Device" where
  "TIMER0_OVF_vect d = d\<lparr>device_tick_flag := 1\<rparr>"

definition tick_10ms :: "tc_config \<Rightarrow> (nat \<Rightarrow> real) \<Rightarrow> Machine \<Rightarrow> Machine" where
  "tick_10ms cfg SAMPLE m =
     (let r = sensor_callback cfg SAMPLE (readings m, sensor m)
      in m\<lparr>sensor := snd (snd r), readings := fst (snd r), runs_10ms := Suc (runs_10ms m)\<rparr>)"

definition tick_100ms :: "tc_config \<Rightarrow> Machine \<Rightarrow> Machine" where
  "tick_100ms cfg m =
     (let r = heater_callback cfg (sensor m, heater m)
      in m\<lparr>sensor := fst (snd r), heater := snd (snd r), runs_100ms := Suc (runs_100ms m)\<rparr>)"

definition tick_1sec :: "Machine \<Rightarrow> Machine" where
  "tick_1sec m = m\<lparr>runs_1sec := Suc (runs_1sec m)\<rparr>"

text \<open>
  \<^verbatim>\<open>tick_callback\<close>. \<^verbatim>\<open>--device.tick_100ms_count\<close> and \<^verbatim>\<open>--device.tick_1sec_count\<close>
  are 8-bit decrements, stored before the comparison with 0.
\<close>

definition tick_callback :: "tc_config \<Rightarrow> (nat \<Rightarrow> real) \<Rightarrow> Machine \<Rightarrow> status_code \<times> Machine" where
  "tick_callback cfg SAMPLE m =
     (if device_tick_flag (device m) = 0 then (SC_NOOP, m)
      else
        let m1 = m\<lparr>device := (device m)\<lparr>device_tick_flag := 0\<rparr>\<rparr>;
            m2 = tick_10ms cfg SAMPLE m1;
            m3 = m2\<lparr>device := (device m2)\<lparr>device_tick_100ms_count :=
                                  device_tick_100ms_count (device m2) - 1\<rparr>\<rparr>
        in
        if device_tick_100ms_count (device m3) \<noteq> 0 then (SC_OK, m3)
        else
          let m4 = m3\<lparr>device := (device m3)\<lparr>device_tick_100ms_count := 10\<rparr>\<rparr>;
              m5 = tick_100ms cfg m4;
              m6 = m5\<lparr>device := (device m5)\<lparr>device_tick_1sec_count :=
                                    device_tick_1sec_count (device m5) - 1\<rparr>\<rparr>
          in
          if device_tick_1sec_count (device m6) \<noteq> 0 then (SC_OK, m6)
          else
            let m7 = m6\<lparr>device := (device m6)\<lparr>device_tick_1sec_count := 10\<rparr>\<rparr>;
                m8 = tick_1sec m7
            in (SC_OK, m8))"

text \<open>
  \<open>poll\<close>: the timer interrupt fires, then the dispatch loop reaches \<^verbatim>\<open>tick_callback\<close>;
  \<open>polls n\<close> is \<open>n\<close> such rounds.
\<close>

definition poll :: "tc_config \<Rightarrow> (nat \<Rightarrow> real) \<Rightarrow> Machine \<Rightarrow> Machine" where
  "poll cfg SAMPLE m = snd (tick_callback cfg SAMPLE (m\<lparr>device := TIMER0_OVF_vect (device m)\<rparr>))"

fun polls :: "tc_config \<Rightarrow> (nat \<Rightarrow> real) \<Rightarrow> nat \<Rightarrow> Machine \<Rightarrow> Machine" where
  "polls cfg SAMPLE 0 m = m"
| "polls cfg SAMPLE (Suc n) m = poll cfg SAMPLE (polls cfg SAMPLE n m)"

subsection \<open>Scenario data\<close>

text \<open>
  A configuration and initial structs for the scenarios below: the heater of the
  ambient-timeout scenario (setpoint 200, ambient floor 50, ambient timeout 30 s,
  tick period 0.1 s) and a sensor that holds a confirmed reading of 20. The tick period
  is the \<^verbatim>\<open>double\<close> nearest to 0.1; \<open>scenario_config\<close> has the 32-bit
  \<^verbatim>\<open>double\<close> of avr-gcc, \<open>scenario_config_binary64\<close> the 64-bit one.
\<close>

definition scenario_config :: tc_config where
  "scenario_config =
     \<lparr> DBL_MANT_DIG = 24,
       HEATER_TICK_SECONDS = fp_round 24 (1 / 10),
       HEATER_AMBIENT_TIMEOUT = 30,
       HEATER_REGULATION_TIMEOUT = 300,
       HEATER_AMBIENT_TEMPERATURE = 50,
       HEATER_OVERHEAT_TEMPERATURE = 300,
       PID_MAX_OUTPUT = 100,
       PID_MIN_OUTPUT = 0,
       PID_Kp = 1000,
       PID_Ki = 0,
       PID_Kd = 0,
       SENSOR_SAMPLES_PER_READING = 10,
       SENSOR_RETRIES = 3,
       SENSOR_VARIANCE_RANGE = 20,
       SENSOR_DISCONNECTED_TEMPERATURE = 400,
       SENSOR_NO_POWER_TEMPERATURE = - 50,
       ABSOLUTE_ZERO = - 27315 / 100,
       SURFACE_OF_THE_SUN = 5505,
       HOTTER_THAN_THE_SUN = 10000 \<rparr>"

definition scenario_config_binary64 :: tc_config where
  "scenario_config_binary64 =
     scenario_config\<lparr>DBL_MANT_DIG := 53, HEATER_TICK_SECONDS := fp_round 53 (1 / 10)\<rparr>"

definition scenario_heater :: Heater where
  "scenario_heater = (heater_init scenario_config)\<lparr>heater_setpoint := 200, heater_state := HEATER_ON\<rparr>"

definition scenario_sensor :: TemperatureSensor where
  "scenario_sensor = (sensor_init scenario_config)\<lparr>sensor_state := SENSOR_HAS_DATA, sensor_temperature := 20\<rparr>"

text \<open>A heater that the ambient timeout has shut down.\<close>

definition shutdown_heater :: Heater where
  "shutdown_heater =
     (heater_init scenario_config)\<lparr>heater_setpoint := 200, heater_temperature := 20,
        heater_regulation_timer := 241 / 8, heater_state := HEATER_SHUTDOWN,
        heater_code := HEATER_AMBIENT_TIMED_OUT\<rparr>"

text \<open>
  A steady stream of readings, and the machine as \<^verbatim>\<open>device_init\<close> leaves it
  (with the run counts at 0).
\<close>

definition steady_samples :: "nat \<Rightarrow> real" where
  "steady_samples k = 170"

definition initial_machine :: Machine where
  "initial_machine =
     \<lparr> device = tick_init \<lparr>device_tick_flag = 0, device_tick_100ms_count = 0,
                            device_tick_1sec_count = 0, device_pwm_freq = 0\<rparr>,
       sensor = sensor_init scenario_config,
       heater = heater_init scenario_config,
       readings = 0, runs_10ms = 0, runs_100ms = 0, runs_1sec = 0 \<rparr>"

text \<open>
  Readings with a spike that lasts for three readings, a sensor in the middle of a window
  (four samples of 100 taken), a sensor with three samples per reading and a slowly rising
  stream of readings.
\<close>

definition spike_samples :: "nat \<Rightarrow> real" where
  "spike_samples k = (if k < 3 then 200 else 100)"

definition midwindow_sensor :: TemperatureSensor where
  "midwindow_sensor =
     (sensor_init scenario_config)\<lparr>sensor_samples := 4, sensor_previous_temp := 100,
        sensor_accumulator := 400\<rparr>"

definition window_sensor :: TemperatureSensor where
  "window_sensor = (sensor_init scenario_config)\<lparr>sensor_samples_per_reading := 3\<rparr>"

definition ramp_samples :: "nat \<Rightarrow> real" where
  "ramp_samples k = 100 + real k"

section \<open>Verified properties\<close>

subsection \<open>Heater: one tick\<close>

lemma heater_callback_on:
  assumes "heater_state h = HEATER_ON" and "sensor_state s = SENSOR_HAS_DATA"
  shows "heater_callback cfg (s, h) =
     (HEATER_OK, s\<lparr>sensor_samples := 0\<rparr>,
      h\<lparr>heater_code := HEATER_OK, heater_temperature := sensor_temperature s,
        heater_regulation_timer := 0, heater_state := HEATER_HEATING\<rparr>)"
  using assms
  by (simp add: heater_callback_def Let_def sensor_start_temperature_reading_def
      sensor_get_state_def sensor_get_temperature_def)

lemma heater_callback_heating_continue:
  assumes "heater_state h = HEATER_HEATING" and "sensor_state s = SENSOR_HAS_DATA"
    and "double_add (DBL_MANT_DIG cfg) (heater_regulation_timer h) (HEATER_TICK_SECONDS cfg)
           \<le> heater_ambient_timeout h"
    and "double_add (DBL_MANT_DIG cfg) (heater_regulation_timer h) (HEATER_TICK_SECONDS cfg)
           \<le> heater_regulation_timeout h"
  shows "heater_callback cfg (s, h) =
     (HEATER_OK, s\<lparr>sensor_samples := 0\<rparr>,
      h\<lparr>heater_code := HEATER_OK, heater_temperature := sensor_temperature s,
        heater_regulation_timer :=
          double_add (DBL_MANT_DIG cfg) (heater_regulation_timer h) (HEATER_TICK_SECONDS cfg)\<rparr>)"
  using assms
  by (simp add: heater_callback_def Let_def sensor_start_temperature_reading_def
      sensor_get_state_def sensor_get_temperature_def)

lemma heater_callback_heating_ambient:
  assumes "heater_state h = HEATER_HEATING" and "sensor_state s = SENSOR_HAS_DATA"
    and "sensor_temperature s < heater_ambient_temperature h"
    and "double_add (DBL_MANT_DIG cfg) (heater_regulation_timer h) (HEATER_TICK_SECONDS cfg)
           > heater_ambient_timeout h"
  shows "heater_callback cfg (s, h) =
     (HEATER_AMBIENT_TIMED_OUT, s\<lparr>sensor_samples := 0\<rparr>,
      h\<lparr>heater_code := HEATER_AMBIENT_TIMED_OUT, heater_temperature := sensor_temperature s,
        heater_regulation_timer :=
          double_add (DBL_MANT_DIG cfg) (heater_regulation_timer h) (HEATER_TICK_SECONDS cfg),
        heater_state := HEATER_SHUTDOWN\<rparr>)"
  using assms
  by (simp add: heater_callback_def Let_def sensor_start_temperature_reading_def
      sensor_get_state_def sensor_get_temperature_def)

subsection \<open>Heater: the rounded regulation timer\<close>

lemma timer_run_Suc: "timer_run p d (Suc n) t = double_add p (timer_run p d n t) d"
  by (induction n arbitrary: t) simp_all

lemma timers_within_iff: "timers_within p d b n t \<longleftrightarrow> (\<forall>k\<le>n. timer_run p d k t \<le> b)"
proof (induction n arbitrary: t)
  case 0
  show ?case by simp
next
  case (Suc n)
  have "(\<forall>k\<le>Suc n. timer_run p d k t \<le> b)
      \<longleftrightarrow> timer_run p d 0 t \<le> b \<and> (\<forall>k\<le>n. timer_run p d (Suc k) t \<le> b)"
    by (metis le0 Suc_le_mono not0_implies_Suc)
  then show ?case by (simp add: Suc)
qed

lemma timers_within_mono:
  assumes "timers_within p d b n t" and "b \<le> b'" and "m \<le> n"
  shows "timers_within p d b' m t"
  using assms unfolding timers_within_iff by (meson order_trans)

text \<open>Unfolding on numerals, for evaluation.\<close>

lemma timer_run_unfold:
  "timer_run p d n t = (if n = 0 then t else timer_run p d (n - 1) (double_add p t d))"
  by (cases n) simp_all

lemma timers_within_unfold:
  "timers_within p d b n t =
     (if n = 0 then t \<le> b else t \<le> b \<and> timers_within p d b (n - 1) (double_add p t d))"
  by (cases n) simp_all

lemmas fp_eval = fp_round_def fp_exponent_def round_half_even_def pow2_def double_add_def
  bit_length.simps Let_def

text \<open>
  The \<^verbatim>\<open>double\<close> nearest to 0.1, in the 32-bit and in the 64-bit format: both are a
  little above 0.1.
\<close>

lemma tick_period_binary32: "fp_round 24 (1 / 10) = 13421773 / 2 ^ 27"
  by (simp add: fp_eval)

lemma tick_period_binary64: "fp_round 53 (1 / 10) = 7205759403792794 / 2 ^ 56"
  by (simp add: fp_eval)

text \<open>
  The rounding on known values: a tie goes to the even neighbour, the sign is kept, and
  the sums 0.1 + 0.2 and ten times 0.1 come out as they do in IEEE arithmetic
  (0.30000000000000004 and 0.9999999999999999 in the 64-bit format, 1.0000001 in the
  32-bit format).
\<close>

lemma fp_round_examples:
  "fp_round 24 (2 ^ 24 + 1) = 2 ^ 24"
  "fp_round 24 (2 ^ 24 + 3) = 2 ^ 24 + 4"
  "fp_round 24 (- (1 / 10)) = - (13421773 / 2 ^ 27)"
  "fp_round 53 (1 / 3) = 6004799503160661 / 2 ^ 54"
  "double_add 53 (fp_round 53 (1 / 10)) (fp_round 53 (2 / 10)) = 5404319552844596 / 2 ^ 54"
  "timer_run 53 (fp_round 53 (1 / 10)) 10 0 = 9007199254740991 / 2 ^ 53"
  "timer_run 24 (fp_round 24 (1 / 10)) 10 0 = 8388609 / 2 ^ 23"
  by (simp_all add: timer_run_unfold fp_eval)

text \<open>
  In both formats the sum of up to 299 tick periods is at most 30, and the sum of 300 is
  above 30 (30.000078 and 30.000000000000156).
\<close>

lemma timers_binary32_within: "timers_within 24 (fp_round 24 (1 / 10)) 30 299 0"
  unfolding tick_period_binary32 by (simp add: timers_within_unfold fp_eval)

lemma timer_binary32_300: "timer_run 24 (fp_round 24 (1 / 10)) 300 0 = 15728681 / 524288"
  unfolding tick_period_binary32 by (simp add: timer_run_unfold fp_eval)

lemma timers_binary64_within: "timers_within 53 (fp_round 53 (1 / 10)) 30 299 0"
  unfolding tick_period_binary64 by (simp add: timers_within_unfold fp_eval)

lemma timer_binary64_300:
  "timer_run 53 (fp_round 53 (1 / 10)) 300 0 = 2111062325329931 / 70368744177664"
  unfolding tick_period_binary64 by (simp add: timer_run_unfold fp_eval)

subsection \<open>Heater: the ambient timeout\<close>

text \<open>
  Started in \<open>HEATER_ON\<close> with a sensor that has data, the heater is in
  \<open>HEATER_HEATING\<close> after \<open>n + 1\<close> ticks with the regulation timer at the rounded sum
  of \<open>n\<close> tick periods, as long as the sums up to there are within both timeouts: the
  first tick only enters \<open>HEATER_HEATING\<close> and zeroes the timer.
\<close>

lemma heater_ticks_from_on:
  assumes on: "heater_state h = HEATER_ON" and sd: "sensor_state s = SENSOR_HAS_DATA"
    and a: "timers_within (DBL_MANT_DIG cfg) (HEATER_TICK_SECONDS cfg)
              (heater_ambient_timeout h) n 0"
    and r: "timers_within (DBL_MANT_DIG cfg) (HEATER_TICK_SECONDS cfg)
              (heater_regulation_timeout h) n 0"
  shows "heater_ticks cfg (Suc n) (s, h) =
     (s\<lparr>sensor_samples := 0\<rparr>,
      h\<lparr>heater_code := HEATER_OK, heater_temperature := sensor_temperature s,
        heater_regulation_timer := timer_run (DBL_MANT_DIG cfg) (HEATER_TICK_SECONDS cfg) n 0,
        heater_state := HEATER_HEATING\<rparr>)"
  using a r
proof (induction n)
  case 0
  show ?case using on sd by (simp add: heater_callback_on)
next
  case (Suc n)
  define p where "p = DBL_MANT_DIG cfg"
  define d where "d = HEATER_TICK_SECONDS cfg"
  have a': "timer_run p d (Suc n) 0 \<le> heater_ambient_timeout h"
    and r': "timer_run p d (Suc n) 0 \<le> heater_regulation_timeout h"
    using Suc.prems unfolding timers_within_iff p_def d_def by blast+
  have IH: "heater_ticks cfg (Suc n) (s, h) =
     (s\<lparr>sensor_samples := 0\<rparr>,
      h\<lparr>heater_code := HEATER_OK, heater_temperature := sensor_temperature s,
        heater_regulation_timer := timer_run p d n 0,
        heater_state := HEATER_HEATING\<rparr>)"
    unfolding p_def d_def
    by (rule Suc.IH) (rule timers_within_mono [OF Suc.prems(1)] timers_within_mono [OF Suc.prems(2)], simp_all)+
  have step: "heater_ticks cfg (Suc (Suc n)) (s, h)
     = snd (heater_callback cfg (heater_ticks cfg (Suc n) (s, h)))"
    by simp
  have "heater_ticks cfg (Suc (Suc n)) (s, h) =
     (s\<lparr>sensor_samples := 0\<rparr>,
      h\<lparr>heater_code := HEATER_OK, heater_temperature := sensor_temperature s,
        heater_regulation_timer := timer_run p d (Suc n) 0,
        heater_state := HEATER_HEATING\<rparr>)"
    unfolding step IH
    apply (subst heater_callback_heating_continue)
    using a' r' sd apply (simp_all add: timer_run_Suc p_def d_def del: timer_run.simps)
    done
  then show ?case by (simp only: p_def d_def)
qed

text \<open>
  Claim C1, as amended. Setpoint 200, ambient floor 50, ambient timeout 30 s, a regulation
  timeout of at least 30 s, the tick period the \<^verbatim>\<open>double\<close> nearest to 0.1 (32-bit or
  64-bit), the heater in \<open>HEATER_ON\<close> and the sensor holding a confirmed 20 at every
  tick. Then the heater is in \<open>HEATER_HEATING\<close> after each of the ticks 1 to 300, and in
  \<open>HEATER_SHUTDOWN\<close> with code \<open>HEATER_AMBIENT_TIMED_OUT\<close> after tick 301: the first
  tick only enters \<open>HEATER_HEATING\<close> with the timer at 0, tick 300 has added 299 tick
  periods, and the rounded sum of the 300 tick periods that tick 301 reaches is a little
  above 30.
\<close>

theorem heater_ambient_shutdown_at_301:
  assumes prec: "DBL_MANT_DIG cfg = 24 \<or> DBL_MANT_DIG cfg = 53"
    and tick: "HEATER_TICK_SECONDS cfg = fp_round (DBL_MANT_DIG cfg) (1 / 10)"
    and on: "heater_state h = HEATER_ON"
    and sp: "heater_setpoint h = 200"
    and floor: "heater_ambient_temperature h = 50"
    and amb: "heater_ambient_timeout h = 30"
    and reg: "30 \<le> heater_regulation_timeout h"
    and sd: "sensor_state s = SENSOR_HAS_DATA"
    and temp: "sensor_temperature s = 20"
  shows "(\<forall>n. 1 \<le> n \<and> n \<le> 300 \<longrightarrow>
            heater_state (snd (heater_ticks cfg n (s, h))) = HEATER_HEATING)
       \<and> heater_state (snd (heater_ticks cfg 301 (s, h))) = HEATER_SHUTDOWN
       \<and> heater_code (snd (heater_ticks cfg 301 (s, h))) = HEATER_AMBIENT_TIMED_OUT"
proof -
  define p where "p = DBL_MANT_DIG cfg"
  define d where "d = HEATER_TICK_SECONDS cfg"
  have within: "timers_within p d 30 299 0" and over: "30 < timer_run p d 300 0"
    using prec timers_binary32_within timers_binary64_within
    by (auto simp add: p_def d_def tick timer_binary32_300 timer_binary64_300)
  have heating: "heater_ticks cfg (Suc k) (s, h) =
     (s\<lparr>sensor_samples := 0\<rparr>,
      h\<lparr>heater_code := HEATER_OK, heater_temperature := sensor_temperature s,
        heater_regulation_timer := timer_run p d k 0,
        heater_state := HEATER_HEATING\<rparr>)" if "k \<le> 299" for k
    unfolding p_def d_def
  proof (rule heater_ticks_from_on [OF on sd])
    show "timers_within (DBL_MANT_DIG cfg) (HEATER_TICK_SECONDS cfg) (heater_ambient_timeout h) k 0"
      using timers_within_mono [OF within _ that, of 30] by (simp add: amb p_def d_def)
    show "timers_within (DBL_MANT_DIG cfg) (HEATER_TICK_SECONDS cfg) (heater_regulation_timeout h) k 0"
      using timers_within_mono [OF within reg that] by (simp add: p_def d_def)
  qed
  have early: "heater_state (snd (heater_ticks cfg n (s, h))) = HEATER_HEATING"
    if "1 \<le> n \<and> n \<le> 300" for n
  proof -
    from that obtain k where n: "n = Suc k" and k: "k \<le> 299"
      by (cases n) simp_all
    show ?thesis unfolding n by (simp only: heating [OF k]) simp
  qed
  have at300: "heater_ticks cfg 300 (s, h) =
     (s\<lparr>sensor_samples := 0\<rparr>,
      h\<lparr>heater_code := HEATER_OK, heater_temperature := 20,
        heater_regulation_timer := timer_run p d 299 0, heater_state := HEATER_HEATING\<rparr>)"
    using heating [of 299] by (simp add: temp)
  have sum300: "double_add p (timer_run p d 299 0) d = timer_run p d 300 0"
    using timer_run_Suc [of p d 299 0] by simp
  have "heater_ticks cfg 301 (s, h) = snd (heater_callback cfg (heater_ticks cfg 300 (s, h)))"
    using heater_ticks.simps(2) [of cfg 300 "(s, h)"] by simp
  also have "\<dots> =
     (s\<lparr>sensor_samples := 0\<rparr>,
      h\<lparr>heater_code := HEATER_AMBIENT_TIMED_OUT, heater_temperature := 20,
        heater_regulation_timer := timer_run p d 300 0, heater_state := HEATER_SHUTDOWN\<rparr>)"
    unfolding at300
    apply (subst heater_callback_heating_ambient)
    using over sum300 apply (simp_all add: sd temp floor amb p_def d_def)
    done
  finally have at301: "heater_ticks cfg 301 (s, h) =
     (s\<lparr>sensor_samples := 0\<rparr>,
      h\<lparr>heater_code := HEATER_AMBIENT_TIMED_OUT, heater_temperature := 20,
        heater_regulation_timer := timer_run p d 300 0, heater_state := HEATER_SHUTDOWN\<rparr>)" .
  show ?thesis using early by (simp add: at301)
qed

theorem heater_ambient_shutdown_at_301_witness:
  "heater_state (snd (heater_ticks scenario_config 300 (scenario_sensor, scenario_heater)))
     = HEATER_HEATING
   \<and> heater_state (snd (heater_ticks scenario_config 301 (scenario_sensor, scenario_heater)))
     = HEATER_SHUTDOWN
   \<and> heater_code (snd (heater_ticks scenario_config 301 (scenario_sensor, scenario_heater)))
     = HEATER_AMBIENT_TIMED_OUT
   \<and> heater_state (snd (heater_ticks scenario_config_binary64 301 (scenario_sensor, scenario_heater)))
     = HEATER_SHUTDOWN
   \<and> heater_code (snd (heater_ticks scenario_config_binary64 301 (scenario_sensor, scenario_heater)))
     = HEATER_AMBIENT_TIMED_OUT"
  using heater_ambient_shutdown_at_301 [of scenario_config scenario_heater scenario_sensor]
    heater_ambient_shutdown_at_301 [of scenario_config_binary64 scenario_heater scenario_sensor]
  by (simp add: scenario_config_binary64_def scenario_config_def scenario_heater_def
      scenario_sensor_def heater_init_def sensor_init_def)

text \<open>
  Claim C1 as stated fails: after 300 ticks the heater of the scenario is still in
  \<open>HEATER_HEATING\<close>, in the 32-bit and in the 64-bit format.
\<close>

theorem heater_not_shutdown_after_300:
  "heater_state (snd (heater_ticks scenario_config 300 (scenario_sensor, scenario_heater)))
     = HEATER_HEATING
   \<and> heater_state (snd (heater_ticks scenario_config 300 (scenario_sensor, scenario_heater)))
     \<noteq> HEATER_SHUTDOWN
   \<and> heater_code (snd (heater_ticks scenario_config 300 (scenario_sensor, scenario_heater)))
     \<noteq> HEATER_AMBIENT_TIMED_OUT
   \<and> heater_state
       (snd (heater_ticks scenario_config_binary64 300 (scenario_sensor, scenario_heater)))
     = HEATER_HEATING"
proof -
  have c32: "DBL_MANT_DIG scenario_config = 24"
    "HEATER_TICK_SECONDS scenario_config = fp_round 24 (1 / 10)"
    and c64: "DBL_MANT_DIG scenario_config_binary64 = 53"
    "HEATER_TICK_SECONDS scenario_config_binary64 = fp_round 53 (1 / 10)"
    by (simp_all add: scenario_config_binary64_def scenario_config_def)
  have h: "heater_state scenario_heater = HEATER_ON"
    "heater_ambient_timeout scenario_heater = 30"
    "heater_regulation_timeout scenario_heater = 300"
    and s: "sensor_state scenario_sensor = SENSOR_HAS_DATA"
    by (simp_all add: scenario_heater_def scenario_sensor_def heater_init_def sensor_init_def
        scenario_config_def)
  have r32: "timers_within 24 (fp_round 24 (1 / 10)) 300 299 0"
    by (rule timers_within_mono [OF timers_binary32_within]) simp_all
  have r64: "timers_within 53 (fp_round 53 (1 / 10)) 300 299 0"
    by (rule timers_within_mono [OF timers_binary64_within]) simp_all
  have "heater_state (snd (heater_ticks scenario_config (Suc 299) (scenario_sensor, scenario_heater)))
          = HEATER_HEATING"
    by (subst heater_ticks_from_on [OF h(1) s])
      (simp_all add: c32 h timers_binary32_within r32)
  moreover have "heater_code (snd (heater_ticks scenario_config (Suc 299) (scenario_sensor, scenario_heater)))
          = HEATER_OK"
    by (subst heater_ticks_from_on [OF h(1) s])
      (simp_all add: c32 h timers_binary32_within r32)
  moreover have "heater_state
       (snd (heater_ticks scenario_config_binary64 (Suc 299) (scenario_sensor, scenario_heater)))
          = HEATER_HEATING"
    by (subst heater_ticks_from_on [OF h(1) s])
      (simp_all add: c64 h timers_binary64_within r64)
  ultimately show ?thesis by simp
qed

subsection \<open>Heater: shutdown\<close>

lemma heater_callback_shutdown:
  assumes "heater_state h = HEATER_SHUTDOWN"
  shows "heater_callback cfg (s, h) = (HEATER_OK, s, h\<lparr>heater_code := HEATER_OK\<rparr>)"
  using assms by (simp add: heater_callback_def Let_def)

text \<open>
  Claim C4 fails on the code. A heater in \<open>HEATER_SHUTDOWN\<close> with the code
  \<open>HEATER_AMBIENT_TIMED_OUT\<close>: one call of \<^verbatim>\<open>heater_callback\<close> leaves the state but
  replaces the code by \<open>HEATER_OK\<close>, because \<^verbatim>\<open>heater.code = HEATER_OK\<close> is assigned
  before the test for what the source calls the no-op cases.
\<close>

theorem heater_shutdown_tick_clears_code:
  "heater_state shutdown_heater = HEATER_SHUTDOWN
   \<and> heater_code shutdown_heater = HEATER_AMBIENT_TIMED_OUT
   \<and> heater_code (snd (snd (heater_callback scenario_config (scenario_sensor, shutdown_heater)))) = HEATER_OK
   \<and> heater_code (snd (snd (heater_callback scenario_config (scenario_sensor, shutdown_heater))))
       \<noteq> HEATER_AMBIENT_TIMED_OUT"
  by (simp add: shutdown_heater_def heater_callback_def Let_def)

subsection \<open>Heater: turning on\<close>

text \<open>
  Claim C8. \<^verbatim>\<open>heater_turn_on\<close> in \<open>HEATER_SHUTDOWN\<close> returns \<open>SC_OK\<close> and leaves the
  struct that \<^verbatim>\<open>heater_init\<close> builds, with the state \<open>HEATER_ON\<close> (not
  \<open>HEATER_HEATING\<close>): the code is the no-fault code, the timer is 0, the two timeouts
  and the two temperature thresholds are the configured constants. In \<open>HEATER_UNINIT\<close>
  it returns \<open>SC_ERROR\<close> and changes nothing.
\<close>

theorem heater_turn_on_reinit:
  "(heater_state h = HEATER_SHUTDOWN \<longrightarrow>
      heater_turn_on cfg h = (SC_OK, (heater_init cfg)\<lparr>heater_state := HEATER_ON\<rparr>)
      \<and> heater_state (snd (heater_turn_on cfg h)) = HEATER_ON
      \<and> heater_state (snd (heater_turn_on cfg h)) \<noteq> HEATER_HEATING
      \<and> heater_code (snd (heater_turn_on cfg h)) = HEATER_OK
      \<and> heater_regulation_timer (snd (heater_turn_on cfg h)) = 0
      \<and> heater_ambient_timeout (snd (heater_turn_on cfg h)) = HEATER_AMBIENT_TIMEOUT cfg
      \<and> heater_regulation_timeout (snd (heater_turn_on cfg h)) = HEATER_REGULATION_TIMEOUT cfg
      \<and> heater_ambient_temperature (snd (heater_turn_on cfg h)) = HEATER_AMBIENT_TEMPERATURE cfg
      \<and> heater_overheat_temperature (snd (heater_turn_on cfg h)) = HEATER_OVERHEAT_TEMPERATURE cfg)
   \<and> (heater_state h = HEATER_UNINIT \<longrightarrow> heater_turn_on cfg h = (SC_ERROR, h))"
  by (simp add: heater_turn_on_def heater_init_def)

theorem heater_turn_on_reinit_witness:
  "heater_turn_on scenario_config shutdown_heater
     = (SC_OK, (heater_init scenario_config)\<lparr>heater_state := HEATER_ON\<rparr>)
   \<and> heater_code (snd (heater_turn_on scenario_config shutdown_heater)) = HEATER_OK
   \<and> heater_turn_on scenario_config (shutdown_heater\<lparr>heater_state := HEATER_UNINIT\<rparr>)
     = (SC_ERROR, shutdown_heater\<lparr>heater_state := HEATER_UNINIT\<rparr>)"
  using heater_turn_on_reinit [of shutdown_heater scenario_config]
    heater_turn_on_reinit [of "shutdown_heater\<lparr>heater_state := HEATER_UNINIT\<rparr>" scenario_config]
  by (simp add: shutdown_heater_def heater_init_def)

text \<open>
  Claim C10. \<^verbatim>\<open>heater_turn_on\<close> in \<open>HEATER_ON\<close>, \<open>HEATER_HEATING\<close> or
  \<open>HEATER_AT_TEMPERATURE\<close> returns \<open>SC_OK\<close> and leaves the whole struct as it was:
  state, code and regulation timer included.
\<close>

theorem heater_turn_on_running_noop:
  assumes "heater_state h = HEATER_ON \<or> heater_state h = HEATER_HEATING
             \<or> heater_state h = HEATER_AT_TEMPERATURE"
  shows "heater_turn_on cfg h = (SC_OK, h)"
  using assms by (auto simp add: heater_turn_on_def)

theorem heater_turn_on_running_noop_witness:
  "heater_turn_on scenario_config (scenario_heater\<lparr>heater_state := HEATER_HEATING, heater_regulation_timer := 12\<rparr>)
     = (SC_OK, scenario_heater\<lparr>heater_state := HEATER_HEATING, heater_regulation_timer := 12\<rparr>)"
  using heater_turn_on_running_noop
    [of "scenario_heater\<lparr>heater_state := HEATER_HEATING, heater_regulation_timer := 12\<rparr>" scenario_config]
  by simp

subsection \<open>Sensor: the temperature accessor\<close>

text \<open>
  Claim C9. \<^verbatim>\<open>sensor_get_temperature\<close> returns the stored temperature in state
  \<open>SENSOR_HAS_DATA\<close> and the constant \<open>SURFACE_OF_THE_SUN\<close> in each of the three other
  states; so, unless the stored temperature happens to be that constant, it returns the
  stored temperature exactly when the state is \<open>SENSOR_HAS_DATA\<close>.
\<close>

theorem sensor_get_temperature_cases:
  "(sensor_state s = SENSOR_HAS_DATA \<longrightarrow> sensor_get_temperature cfg s = sensor_temperature s)
   \<and> (sensor_state s = SENSOR_UNINIT \<longrightarrow> sensor_get_temperature cfg s = SURFACE_OF_THE_SUN cfg)
   \<and> (sensor_state s = SENSOR_HAS_NO_DATA \<longrightarrow> sensor_get_temperature cfg s = SURFACE_OF_THE_SUN cfg)
   \<and> (sensor_state s = SENSOR_SHUTDOWN \<longrightarrow> sensor_get_temperature cfg s = SURFACE_OF_THE_SUN cfg)
   \<and> (sensor_temperature s \<noteq> SURFACE_OF_THE_SUN cfg \<longrightarrow>
        (sensor_get_temperature cfg s = sensor_temperature s) = (sensor_state s = SENSOR_HAS_DATA))"
  by (simp add: sensor_get_temperature_def)

theorem sensor_get_temperature_cases_witness:
  "sensor_get_temperature scenario_config scenario_sensor = 20
   \<and> sensor_get_temperature scenario_config (scenario_sensor\<lparr>sensor_state := SENSOR_UNINIT\<rparr>) = 5505
   \<and> sensor_get_temperature scenario_config (scenario_sensor\<lparr>sensor_state := SENSOR_HAS_NO_DATA\<rparr>) = 5505
   \<and> sensor_get_temperature scenario_config (scenario_sensor\<lparr>sensor_state := SENSOR_SHUTDOWN\<rparr>) = 5505"
  using sensor_get_temperature_cases [of scenario_sensor scenario_config]
    sensor_get_temperature_cases [of "scenario_sensor\<lparr>sensor_state := SENSOR_UNINIT\<rparr>" scenario_config]
    sensor_get_temperature_cases [of "scenario_sensor\<lparr>sensor_state := SENSOR_HAS_NO_DATA\<rparr>" scenario_config]
    sensor_get_temperature_cases [of "scenario_sensor\<lparr>sensor_state := SENSOR_SHUTDOWN\<rparr>" scenario_config]
  by (simp add: scenario_sensor_def scenario_config_def sensor_init_def)

subsection \<open>PID\<close>

text \<open>
  The saturation filter of \<^verbatim>\<open>pid_calc\<close> clamps to the macros \<^verbatim>\<open>MIN\<close> and \<^verbatim>\<open>MAX\<close>
  (\<open>-4\<close> and \<open>4\<close>); the fields \<^verbatim>\<open>pid.min\<close> and \<^verbatim>\<open>pid.max\<close> are neither read nor
  written.
\<close>

lemma pid_calc_within_hard_bounds:
  "MIN_sat \<le> fst (pid_calc p setpoint temperature) \<and> fst (pid_calc p setpoint temperature) \<le> MAX_sat"
  by (simp add: pid_calc_def Let_def MIN_sat_def MAX_sat_def)

lemma pid_calc_bounds_fields:
  "pid_max (snd (pid_calc p setpoint temperature)) = pid_max p
   \<and> pid_min (snd (pid_calc p setpoint temperature)) = pid_min p"
  by (simp add: pid_calc_def Let_def)

text \<open>
  Claim C5 fails on the code. With the configured bounds \<open>pid_min = 0\<close> and
  \<open>pid_max = 100\<close> and \<open>Kp = 1000\<close>, setpoint 20 and temperature 200 give the output
  \<open>-4\<close>, below \<open>pid_min\<close>; setpoint 200 and temperature 20 give \<open>4\<close>, which is not the
  configured upper bound.
\<close>

theorem pid_calc_outside_configured_bounds:
  "pid_min (pid_init scenario_config) = 0 \<and> pid_max (pid_init scenario_config) = 100
   \<and> fst (pid_calc (pid_init scenario_config) 20 200) = - 4
   \<and> \<not> (pid_min (pid_init scenario_config) \<le> fst (pid_calc (pid_init scenario_config) 20 200))
   \<and> fst (pid_calc (pid_init scenario_config) 200 20) = 4
   \<and> fst (pid_calc (pid_init scenario_config) 200 20) \<noteq> pid_max (pid_init scenario_config)"
  by (simp add: pid_calc_def pid_init_def scenario_config_def Let_def epsilon_def dt_def
      MIN_sat_def MAX_sat_def)

text \<open>
  Claim C6. With \<open>error = setpoint - temperature\<close>: when \<open>\<bar>error\<bar>\<close> is below (or equal
  to) \<open>epsilon\<close> the integral is unchanged by \<^verbatim>\<open>pid_calc\<close>; when it is above
  \<open>epsilon\<close> the integral grows by \<open>error * dt\<close>; in both cases \<open>prev_error\<close> is the
  new error afterwards.
\<close>

theorem pid_calc_integral:
  "(\<bar>setpoint - temperature\<bar> \<le> epsilon \<longrightarrow>
      pid_integral (snd (pid_calc p setpoint temperature)) = pid_integral p)
   \<and> (\<bar>setpoint - temperature\<bar> > epsilon \<longrightarrow>
      pid_integral (snd (pid_calc p setpoint temperature))
        = pid_integral p + (setpoint - temperature) * dt)
   \<and> pid_prev_error (snd (pid_calc p setpoint temperature)) = setpoint - temperature"
  by (simp add: pid_calc_def Let_def)

theorem pid_calc_integral_witness:
  "pid_integral (snd (pid_calc ((pid_init scenario_config)\<lparr>pid_integral := 5\<rparr>) 200 (199995 / 1000))) = 5
   \<and> pid_prev_error (snd (pid_calc ((pid_init scenario_config)\<lparr>pid_integral := 5\<rparr>) 200 (199995 / 1000))) = 5 / 1000
   \<and> pid_integral (snd (pid_calc ((pid_init scenario_config)\<lparr>pid_integral := 5\<rparr>) 200 20)) = 5 + 180 / 100
   \<and> pid_prev_error (snd (pid_calc ((pid_init scenario_config)\<lparr>pid_integral := 5\<rparr>) 200 20)) = 180"
  using pid_calc_integral [of 200 "199995 / 1000" "(pid_init scenario_config)\<lparr>pid_integral := 5\<rparr>"]
    pid_calc_integral [of 200 20 "(pid_init scenario_config)\<lparr>pid_integral := 5\<rparr>"]
  by (simp add: epsilon_def dt_def)

subsection \<open>Tick scheduler\<close>

text \<open>The handlers leave \<^verbatim>\<open>device\<close> alone, and each counts its own run only.\<close>

lemma tick_10ms_frame:
  "device (tick_10ms cfg SAMPLE m) = device m
   \<and> runs_10ms (tick_10ms cfg SAMPLE m) = Suc (runs_10ms m)
   \<and> runs_100ms (tick_10ms cfg SAMPLE m) = runs_100ms m
   \<and> runs_1sec (tick_10ms cfg SAMPLE m) = runs_1sec m"
  by (simp add: tick_10ms_def Let_def)

lemma tick_100ms_frame:
  "device (tick_100ms cfg m) = device m
   \<and> runs_10ms (tick_100ms cfg m) = runs_10ms m
   \<and> runs_100ms (tick_100ms cfg m) = Suc (runs_100ms m)
   \<and> runs_1sec (tick_100ms cfg m) = runs_1sec m"
  by (simp add: tick_100ms_def Let_def)

lemma tick_1sec_frame:
  "device (tick_1sec m) = device m
   \<and> runs_10ms (tick_1sec m) = runs_10ms m
   \<and> runs_100ms (tick_1sec m) = runs_100ms m
   \<and> runs_1sec (tick_1sec m) = Suc (runs_1sec m)"
  by (simp add: tick_1sec_def)

text \<open>What one round does to the two down counters and to the three run counts.\<close>

lemma poll_counters:
  fixes m :: Machine
  defines "c \<equiv> device_tick_100ms_count (device m)"
    and "d \<equiv> device_tick_1sec_count (device m)"
  shows "device_tick_100ms_count (device (poll cfg SAMPLE m)) = (if c = 1 then 10 else c - 1)"
    and "device_tick_1sec_count (device (poll cfg SAMPLE m))
           = (if c = 1 then (if d = 1 then 10 else d - 1) else d)"
    and "runs_10ms (poll cfg SAMPLE m) = Suc (runs_10ms m)"
    and "runs_100ms (poll cfg SAMPLE m) = (if c = 1 then Suc (runs_100ms m) else runs_100ms m)"
    and "runs_1sec (poll cfg SAMPLE m)
           = (if c = 1 \<and> d = 1 then Suc (runs_1sec m) else runs_1sec m)"
  unfolding c_def d_def
  by (simp_all add: poll_def tick_callback_def TIMER0_OVF_vect_def Let_def
      tick_10ms_frame tick_100ms_frame tick_1sec_frame)

text \<open>Arithmetic of the 8-bit down counters and of the round number.\<close>

lemma u8_eq_1_iff: "(c :: u8) = 1 \<longleftrightarrow> unat c = 1"
  by (simp add: word_unat_eq_iff)

lemma u8_unat_dec: "unat (c :: u8) \<noteq> 0 \<Longrightarrow> unat (c - 1) = unat c - 1"
  by (rule unat_minus_one) (auto simp: unat_eq_0)

lemma Suc_mod_10: "Suc k mod 10 = (if k mod 10 = 9 then 0 else Suc (k mod 10))"
  by (simp add: mod_Suc)

lemma Suc_div_10: "Suc k div 10 = (if k mod 10 = 9 then Suc (k div 10) else k div 10)"
  by (simp add: div_Suc mod_Suc)

lemma div_100: "(k::nat) div 100 = (k div 10) div 10"
  by (simp add: div_mult2_eq [symmetric])

lemma Suc_div_100:
  "Suc k div 100 = (if k mod 10 = 9 \<and> (k div 10) mod 10 = 9 then Suc (k div 100) else k div 100)"
  unfolding div_100 Suc_div_10 by (simp add: Suc_div_10)

text \<open>
  After \<open>k\<close> rounds from both counters at 10: the counters and the run counts in closed
  form.
\<close>

lemma polls_counters:
  assumes c0: "device_tick_100ms_count (device m) = 10"
    and d0: "device_tick_1sec_count (device m) = 10"
  shows "unat (device_tick_100ms_count (device (polls cfg SAMPLE k m))) = 10 - k mod 10
       \<and> unat (device_tick_1sec_count (device (polls cfg SAMPLE k m))) = 10 - (k div 10) mod 10
       \<and> runs_10ms (polls cfg SAMPLE k m) = runs_10ms m + k
       \<and> runs_100ms (polls cfg SAMPLE k m) = runs_100ms m + k div 10
       \<and> runs_1sec (polls cfg SAMPLE k m) = runs_1sec m + k div 100"
proof (induction k)
  case 0
  show ?case by (simp add: c0 d0)
next
  case (Suc k)
  define m' where "m' = polls cfg SAMPLE k m"
  define c where "c = device_tick_100ms_count (device m')"
  define d where "d = device_tick_1sec_count (device m')"
  define a where "a = k mod 10"
  define b where "b = (k div 10) mod 10"
  have a: "a < 10" and b: "b < 10" by (simp_all add: a_def b_def)
  have uc: "unat c = 10 - a" and ud: "unat d = 10 - b"
    and r10: "runs_10ms m' = runs_10ms m + k"
    and r100: "runs_100ms m' = runs_100ms m + k div 10"
    and r1: "runs_1sec m' = runs_1sec m + k div 100"
    using Suc by (simp_all add: m'_def c_def d_def a_def b_def)
  have step: "polls cfg SAMPLE (Suc k) m = poll cfg SAMPLE m'"
    by (simp add: m'_def)
  have c1: "c = 1 \<longleftrightarrow> a = 9"
    unfolding u8_eq_1_iff uc using a by arith
  have d1: "d = 1 \<longleftrightarrow> b = 9"
    unfolding u8_eq_1_iff ud using b by arith
  have cdec: "unat (c - 1) = 9 - a"
    using u8_unat_dec [of c] uc a by simp
  have ddec: "unat (d - 1) = 9 - b"
    using u8_unat_dec [of d] ud b by simp
  have sm: "Suc k mod 10 = (if a = 9 then 0 else Suc a)"
    unfolding a_def by (rule Suc_mod_10)
  have sd: "Suc k div 10 = (if a = 9 then Suc (k div 10) else k div 10)"
    unfolding a_def by (rule Suc_div_10)
  have sdm: "(Suc k div 10) mod 10 = (if a = 9 then (if b = 9 then 0 else Suc b) else b)"
    unfolding sd b_def by (simp add: Suc_mod_10)
  have sh: "Suc k div 100 = (if a = 9 \<and> b = 9 then Suc (k div 100) else k div 100)"
    unfolding a_def b_def by (rule Suc_div_100)
  have A: "unat (device_tick_100ms_count (device (poll cfg SAMPLE m'))) = 10 - Suc k mod 10"
    unfolding poll_counters(1) c_def [symmetric] sm
    using a by (simp add: c1 cdec)
  have B: "unat (device_tick_1sec_count (device (poll cfg SAMPLE m'))) = 10 - (Suc k div 10) mod 10"
    unfolding poll_counters(2) c_def [symmetric] d_def [symmetric] sdm
    using b by (simp add: c1 d1 ddec ud)
  have C: "runs_10ms (poll cfg SAMPLE m') = runs_10ms m + Suc k"
    by (simp add: poll_counters(3) r10)
  have D: "runs_100ms (poll cfg SAMPLE m') = runs_100ms m + Suc k div 10"
    unfolding poll_counters(4) c_def [symmetric] sd
    by (simp add: c1 r100)
  have E: "runs_1sec (poll cfg SAMPLE m') = runs_1sec m + Suc k div 100"
    unfolding poll_counters(5) c_def [symmetric] d_def [symmetric] sh
    by (simp add: c1 d1 r1)
  show ?case unfolding step using A B C D E by simp
qed

text \<open>
  Claim C7. With both down counters at 10 and the tick flag set before every call of
  \<^verbatim>\<open>tick_callback\<close>: the 100 ms handler has not run after 9 calls and has run once
  after 10; the 1 s handler has not run after 99 calls and has run once after 100; after
  \<open>k\<close> calls the 10 ms handler has run \<open>k\<close> times (once in every call), the 100 ms
  handler \<open>k div 10\<close> times, the 1 s handler \<open>k div 100\<close> times; and between calls
  both counters are within 1 to 10, back at 10 after each call in which they reached 0.
\<close>

theorem tick_scheduler_cadence:
  assumes "device_tick_100ms_count (device m) = 10"
    and "device_tick_1sec_count (device m) = 10"
  shows "runs_100ms (polls cfg SAMPLE 9 m) = runs_100ms m
       \<and> runs_100ms (polls cfg SAMPLE 10 m) = runs_100ms m + 1
       \<and> runs_1sec (polls cfg SAMPLE 99 m) = runs_1sec m
       \<and> runs_1sec (polls cfg SAMPLE 100 m) = runs_1sec m + 1
       \<and> (\<forall>k. runs_10ms (polls cfg SAMPLE k m) = runs_10ms m + k
              \<and> runs_100ms (polls cfg SAMPLE k m) = runs_100ms m + k div 10
              \<and> runs_1sec (polls cfg SAMPLE k m) = runs_1sec m + k div 100
              \<and> unat (device_tick_100ms_count (device (polls cfg SAMPLE k m))) = 10 - k mod 10
              \<and> unat (device_tick_1sec_count (device (polls cfg SAMPLE k m)))
                   = 10 - (k div 10) mod 10
              \<and> 1 \<le> unat (device_tick_100ms_count (device (polls cfg SAMPLE k m)))
              \<and> unat (device_tick_100ms_count (device (polls cfg SAMPLE k m))) \<le> 10
              \<and> 1 \<le> unat (device_tick_1sec_count (device (polls cfg SAMPLE k m)))
              \<and> unat (device_tick_1sec_count (device (polls cfg SAMPLE k m))) \<le> 10)"
proof -
  note pc = polls_counters [OF assms, of cfg SAMPLE]
  have a: "k mod 10 < 10" and b: "(k div 10) mod 10 < 10" for k :: nat
    by simp_all
  have general: "runs_10ms (polls cfg SAMPLE k m) = runs_10ms m + k
              \<and> runs_100ms (polls cfg SAMPLE k m) = runs_100ms m + k div 10
              \<and> runs_1sec (polls cfg SAMPLE k m) = runs_1sec m + k div 100
              \<and> unat (device_tick_100ms_count (device (polls cfg SAMPLE k m))) = 10 - k mod 10
              \<and> unat (device_tick_1sec_count (device (polls cfg SAMPLE k m)))
                   = 10 - (k div 10) mod 10
              \<and> 1 \<le> unat (device_tick_100ms_count (device (polls cfg SAMPLE k m)))
              \<and> unat (device_tick_100ms_count (device (polls cfg SAMPLE k m))) \<le> 10
              \<and> 1 \<le> unat (device_tick_1sec_count (device (polls cfg SAMPLE k m)))
              \<and> unat (device_tick_1sec_count (device (polls cfg SAMPLE k m))) \<le> 10" for k
  proof -
    have "1 \<le> 10 - k mod 10" and "1 \<le> 10 - (k div 10) mod 10"
      using a [of k] b [of k] by linarith+
    then show ?thesis using pc [of k] by simp
  qed
  have "runs_100ms (polls cfg SAMPLE 9 m) = runs_100ms m"
    using pc [of 9] by simp
  moreover have "runs_100ms (polls cfg SAMPLE 10 m) = runs_100ms m + 1"
    using pc [of 10] by simp
  moreover have "runs_1sec (polls cfg SAMPLE 99 m) = runs_1sec m"
    using pc [of 99] by simp
  moreover have "runs_1sec (polls cfg SAMPLE 100 m) = runs_1sec m + 1"
    using pc [of 100] by simp
  ultimately show ?thesis using general by blast
qed

theorem tick_scheduler_cadence_witness:
  "runs_100ms (polls scenario_config steady_samples 10 initial_machine) = 1
   \<and> runs_1sec (polls scenario_config steady_samples 100 initial_machine) = 1
   \<and> runs_10ms (polls scenario_config steady_samples 100 initial_machine) = 100
   \<and> unat (device_tick_100ms_count (device (polls scenario_config steady_samples 100 initial_machine))) = 10"
  using tick_scheduler_cadence [of initial_machine scenario_config steady_samples]
  by (simp add: initial_machine_def tick_init_def)

subsection \<open>Sensor: taking one sample\<close>

lemma sensor_sample_new_period:
  "sensor_sample cfg SAMPLE True (k, s)
     = (SAMPLE k, Suc k, s\<lparr>sensor_previous_temp := SAMPLE k\<rparr>)"
  by (simp add: sensor_sample_def Let_def)

lemma sensor_sample_accept:
  assumes "sensor_retries s \<noteq> 0"
    and "\<bar>SAMPLE k - sensor_previous_temp s\<bar> < sensor_variance s"
  shows "sensor_sample cfg SAMPLE False (k, s)
     = (SAMPLE k, Suc k, s\<lparr>sensor_previous_temp := SAMPLE k\<rparr>)"
proof -
  from assms(1) have "unat (sensor_retries s) \<noteq> 0" by (simp add: unat_eq_0)
  then obtain r where "unat (sensor_retries s) = Suc r" by (cases "unat (sensor_retries s)") simp_all
  then show ?thesis using assms(2) by (simp add: sensor_sample_def Let_def)
qed

text \<open>
  The loop with \<open>i\<close> rounds to go, the sample in hand and the readings
  \<open>k, \<dots>, k + i - 2\<close> all outside the variance range: it takes \<open>i\<close> more readings
  and returns \<^verbatim>\<open>HOTTER_THAN_THE_SUN\<close>, whatever the last of them, reading
  \<open>k + i - 1\<close>, is.
\<close>

lemma sensor_sample_loop_exhausted:
  assumes "\<forall>j. Suc j < i \<longrightarrow> sensor_variance s \<le> \<bar>SAMPLE (k + j) - sensor_previous_temp s\<bar>"
    and "i = 0 \<or> sensor_variance s \<le> \<bar>sample - sensor_previous_temp s\<bar>"
  shows "sensor_sample_loop cfg SAMPLE i sample (k, s) = (HOTTER_THAN_THE_SUN cfg, k + i, s)"
  using assms
proof (induction i arbitrary: sample k)
  case 0
  show ?case by simp
next
  case (Suc i)
  have rej: "\<not> \<bar>sample - sensor_previous_temp s\<bar> < sensor_variance s"
    using Suc.prems(2) by simp
  have "sensor_sample_loop cfg SAMPLE i (SAMPLE k) (Suc k, s)
          = (HOTTER_THAN_THE_SUN cfg, Suc k + i, s)"
  proof (rule Suc.IH)
    show "\<forall>j. Suc j < i \<longrightarrow> sensor_variance s \<le> \<bar>SAMPLE (Suc k + j) - sensor_previous_temp s\<bar>"
    proof (intro allI impI)
      fix j assume "Suc j < i"
      then have "Suc (Suc j) < Suc i" by simp
      then have "sensor_variance s \<le> \<bar>SAMPLE (k + Suc j) - sensor_previous_temp s\<bar>"
        using Suc.prems(1) by blast
      then show "sensor_variance s \<le> \<bar>SAMPLE (Suc k + j) - sensor_previous_temp s\<bar>"
        by simp
    qed
    show "i = 0 \<or> sensor_variance s \<le> \<bar>SAMPLE k - sensor_previous_temp s\<bar>"
    proof (cases i)
      case 0
      then show ?thesis by simp
    next
      case (Suc i')
      then have "Suc 0 < Suc i" by simp
      then have "sensor_variance s \<le> \<bar>SAMPLE (k + 0) - sensor_previous_temp s\<bar>"
        using Suc.prems(1) by blast
      then show ?thesis by simp
    qed
  qed
  then show ?case using rej by simp
qed

text \<open>
  Claim C2 fails on the code. With \<open>retries = 3\<close>, variance range 20 and previous
  sample 100, in the middle of a window: the sample and the first two retries read 200, the
  third retry reads 100, which is within range. \<^verbatim>\<open>_sensor_sample\<close> takes that fourth
  reading and returns \<^verbatim>\<open>HOTTER_THAN_THE_SUN\<close> without looking at it; the previous
  sample is not updated, and \<^verbatim>\<open>sensor_callback\<close> shuts the sensor down with
  \<open>SENSOR_BAD_READINGS\<close>.
\<close>

theorem sensor_sample_drops_last_retry:
  "sensor_retries midwindow_sensor = 3
   \<and> \<bar>spike_samples 3 - sensor_previous_temp midwindow_sensor\<bar> < sensor_variance midwindow_sensor
   \<and> sensor_sample scenario_config spike_samples False (0, midwindow_sensor)
       = (HOTTER_THAN_THE_SUN scenario_config, 4, midwindow_sensor)
   \<and> sensor_state (snd (snd (sensor_callback scenario_config spike_samples (0, midwindow_sensor))))
       = SENSOR_SHUTDOWN
   \<and> sensor_code (snd (snd (sensor_callback scenario_config spike_samples (0, midwindow_sensor))))
       = SENSOR_BAD_READINGS"
proof -
  have r: "sensor_retries midwindow_sensor = 3"
    by (simp add: midwindow_sensor_def sensor_init_def scenario_config_def)
  have u: "unat (sensor_retries midwindow_sensor) = Suc (Suc (Suc 0))"
    unfolding r by simp
  have inb: "\<bar>spike_samples 3 - sensor_previous_temp midwindow_sensor\<bar>
              < sensor_variance midwindow_sensor"
    by (simp add: midwindow_sensor_def sensor_init_def scenario_config_def spike_samples_def)
  have smp: "sensor_sample scenario_config spike_samples False (0, midwindow_sensor)
       = (HOTTER_THAN_THE_SUN scenario_config, 4, midwindow_sensor)"
    unfolding sensor_sample_def Let_def fst_conv snd_conv u
    by (simp add: midwindow_sensor_def sensor_init_def scenario_config_def spike_samples_def)
  have cb: "sensor_callback scenario_config spike_samples (0, midwindow_sensor)
       = (SENSOR_BAD_READINGS, 4,
          midwindow_sensor\<lparr>sensor_state := SENSOR_SHUTDOWN, sensor_code := SENSOR_BAD_READINGS\<rparr>)"
  proof -
    have ok: "midwindow_sensor\<lparr>sensor_code := SENSOR_OK\<rparr> = midwindow_sensor"
      by (simp add: midwindow_sensor_def sensor_init_def)
    have st: "sensor_state midwindow_sensor = SENSOR_HAS_NO_DATA"
      and n: "sensor_samples midwindow_sensor = 4"
      by (simp_all add: midwindow_sensor_def sensor_init_def)
    have sun: "HOTTER_THAN_THE_SUN scenario_config > SURFACE_OF_THE_SUN scenario_config"
      by (simp add: scenario_config_def)
    show ?thesis
      unfolding sensor_callback_def Let_def fst_conv snd_conv ok
      using sun by (simp add: st n smp)
  qed
  show ?thesis using r inb smp by (simp add: cb)
qed

text \<open>The same sensor with the in-range reading one retry earlier: it is accepted.\<close>

lemma sensor_sample_accepts_earlier_retry:
  "sensor_sample scenario_config (\<lambda>k. if k < 2 then 200 else 100) False (0, midwindow_sensor)
     = (100, 3, midwindow_sensor\<lparr>sensor_previous_temp := 100\<rparr>)"
proof -
  have u: "unat (sensor_retries midwindow_sensor) = Suc (Suc (Suc 0))"
    by (simp add: midwindow_sensor_def sensor_init_def scenario_config_def)
  show ?thesis
    unfolding sensor_sample_def Let_def fst_conv snd_conv u
    by (simp add: midwindow_sensor_def sensor_init_def scenario_config_def)
qed

text \<open>
  One call of \<^verbatim>\<open>sensor_callback\<close> whose first reading is accepted by the variance
  test and is not above \<^verbatim>\<open>SURFACE_OF_THE_SUN\<close>.
\<close>

lemma sensor_callback_accepted:
  assumes st: "sensor_state s = SENSOR_HAS_NO_DATA \<or> sensor_state s = SENSOR_HAS_DATA"
    and acc: "sensor_samples s = 0
              \<or> (sensor_retries s \<noteq> 0 \<and> \<bar>SAMPLE k - sensor_previous_temp s\<bar> < sensor_variance s)"
    and sun: "SAMPLE k \<le> SURFACE_OF_THE_SUN cfg"
  shows "sensor_callback cfg SAMPLE (k, s) =
     (let a = (if sensor_samples s = 0 then 0 else sensor_accumulator s) + SAMPLE k;
          n = sensor_samples s + 1;
          s4 = s\<lparr>sensor_code := SENSOR_OK, sensor_accumulator := a,
                 sensor_previous_temp := SAMPLE k, sensor_samples := n\<rparr>;
          avg = a / real (unat n)
      in if n < sensor_samples_per_reading s then (SENSOR_OK, Suc k, s4)
         else if avg > SENSOR_DISCONNECTED_TEMPERATURE cfg
         then (SENSOR_DISCONNECTED, Suc k,
               s4\<lparr>sensor_temperature := avg, sensor_state := SENSOR_HAS_NO_DATA,
                  sensor_code := SENSOR_DISCONNECTED\<rparr>)
         else if avg < SENSOR_NO_POWER_TEMPERATURE cfg
         then (SENSOR_NO_POWER, Suc k,
               s4\<lparr>sensor_temperature := avg, sensor_state := SENSOR_HAS_NO_DATA,
                  sensor_code := SENSOR_NO_POWER\<rparr>)
         else (SENSOR_OK, Suc k,
               s4\<lparr>sensor_temperature := avg, sensor_state := SENSOR_HAS_DATA\<rparr>))"
proof (cases "sensor_samples s = 0")
  case True
  have smp: "sensor_sample cfg SAMPLE True (k, s\<lparr>sensor_code := SENSOR_OK, sensor_accumulator := 0\<rparr>)
     = (SAMPLE k, Suc k,
        s\<lparr>sensor_code := SENSOR_OK, sensor_accumulator := 0, sensor_previous_temp := SAMPLE k\<rparr>)"
    by (rule sensor_sample_new_period)
  show ?thesis
    unfolding sensor_callback_def Let_def fst_conv snd_conv
    using st sun True by (auto simp add: smp)
next
  case False
  with acc have r: "sensor_retries s \<noteq> 0"
    and v: "\<bar>SAMPLE k - sensor_previous_temp s\<bar> < sensor_variance s" by simp_all
  have smp: "sensor_sample cfg SAMPLE False (k, s\<lparr>sensor_code := SENSOR_OK\<rparr>)
     = (SAMPLE k, Suc k, s\<lparr>sensor_code := SENSOR_OK, sensor_previous_temp := SAMPLE k\<rparr>)"
    by (rule sensor_sample_accept) (simp_all add: r v)
  show ?thesis
    unfolding sensor_callback_def Let_def fst_conv snd_conv
    using st sun False by (auto simp add: smp)
qed

subsection \<open>Sensor: a sampling window\<close>

lemma u8_unat_bound: "unat (w :: u8) < 256"
  using unsigned_less [of w, where 'a = nat] by simp

lemma u8_unat_of_nat: "n < 256 \<Longrightarrow> unat (of_nat n :: u8) = n"
  by (simp add: unat_of_nat)

lemma u8_of_nat_less: "n < 256 \<Longrightarrow> ((of_nat n :: u8) < w) = (n < unat w)"
  by (simp add: word_less_nat_alt u8_unat_of_nat)

lemma u8_of_nat_eq_0: "n < 256 \<Longrightarrow> ((of_nat n :: u8) = 0) = (n = 0)"
  using u8_unat_of_nat [of n] by (auto simp add: unat_eq_0 [symmetric] simp del: unat_eq_0)

text \<open>
  The first \<open>j + 1 < N\<close> calls of a fresh window of in-range readings: each takes one
  reading, adds it to the accumulator and returns \<open>SENSOR_OK\<close>.
\<close>

lemma sensor_ticks_sampling:
  assumes st: "sensor_state s = SENSOR_HAS_NO_DATA \<or> sensor_state s = SENSOR_HAS_DATA"
    and fresh: "sensor_samples s = 0"
    and N: "N = unat (sensor_samples_per_reading s)"
    and retries: "sensor_retries s \<noteq> 0"
    and sun: "\<forall>i<N. SAMPLE (k + i) \<le> SURFACE_OF_THE_SUN cfg"
    and var: "\<forall>i. Suc i < N \<longrightarrow> \<bar>SAMPLE (k + Suc i) - SAMPLE (k + i)\<bar> < sensor_variance s"
    and j: "Suc j < N"
  shows "sensor_ticks cfg SAMPLE (Suc j) (k, s) =
     (k + Suc j,
      s\<lparr>sensor_code := SENSOR_OK, sensor_accumulator := (\<Sum>i<Suc j. SAMPLE (k + i)),
        sensor_previous_temp := SAMPLE (k + j), sensor_samples := of_nat (Suc j)\<rparr>)
     \<and> fst (sensor_callback cfg SAMPLE (sensor_ticks cfg SAMPLE j (k, s))) = SENSOR_OK"
  using j
proof (induction j)
  case 0
  have lt: "(1 :: u8) < sensor_samples_per_reading s"
    using 0 N by (simp add: word_less_nat_alt)
  have s0: "SAMPLE k \<le> SURFACE_OF_THE_SUN cfg"
    using sun 0 by (metis Suc_lessD add.right_neutral)
  have "sensor_callback cfg SAMPLE (k, s) =
     (SENSOR_OK, Suc k,
      s\<lparr>sensor_code := SENSOR_OK, sensor_accumulator := SAMPLE k,
        sensor_previous_temp := SAMPLE k, sensor_samples := 1\<rparr>)"
  proof -
    have acc0: "sensor_samples s = 0
       \<or> (sensor_retries s \<noteq> 0 \<and> \<bar>SAMPLE k - sensor_previous_temp s\<bar> < sensor_variance s)"
      using fresh by simp
    show ?thesis
      by (subst sensor_callback_accepted [where s = s and SAMPLE = SAMPLE and k = k, OF st acc0 s0])
        (simp add: fresh lt Let_def)
  qed
  then show ?case by simp
next
  case (Suc j)
  define sj where "sj = s\<lparr>sensor_code := SENSOR_OK,
        sensor_accumulator := (\<Sum>i<Suc j. SAMPLE (k + i)),
        sensor_previous_temp := SAMPLE (k + j), sensor_samples := of_nat (Suc j)\<rparr>"
  have IH: "sensor_ticks cfg SAMPLE (Suc j) (k, s) = (k + Suc j, sj)"
    unfolding sj_def using Suc by simp
  have b: "Suc (Suc j) < 256"
    using Suc.prems N u8_unat_bound [of "sensor_samples_per_reading s"] by simp
  have nz: "sensor_samples sj \<noteq> 0"
    using u8_of_nat_eq_0 [of "Suc j"] b by (simp add: sj_def)
  have stj: "sensor_state sj = SENSOR_HAS_NO_DATA \<or> sensor_state sj = SENSOR_HAS_DATA"
    using st by (simp add: sj_def)
  have accj: "sensor_samples sj = 0
     \<or> (sensor_retries sj \<noteq> 0
        \<and> \<bar>SAMPLE (k + Suc j) - sensor_previous_temp sj\<bar> < sensor_variance sj)"
    using retries var Suc.prems by (simp add: sj_def)
  have sunj: "SAMPLE (k + Suc j) \<le> SURFACE_OF_THE_SUN cfg"
    using sun Suc.prems by (meson Suc_lessD)
  have n: "sensor_samples sj + 1 = of_nat (Suc (Suc j))"
    by (simp add: sj_def)
  have lt: "sensor_samples sj + 1 < sensor_samples_per_reading sj"
    unfolding n using u8_of_nat_less [OF b, of "sensor_samples_per_reading s"] Suc.prems N
    by (simp add: sj_def)
  have cb: "sensor_callback cfg SAMPLE (k + Suc j, sj) =
     (SENSOR_OK, Suc (k + Suc j),
      sj\<lparr>sensor_code := SENSOR_OK,
         sensor_accumulator := sensor_accumulator sj + SAMPLE (k + Suc j),
         sensor_previous_temp := SAMPLE (k + Suc j), sensor_samples := sensor_samples sj + 1\<rparr>)"
    by (subst sensor_callback_accepted
          [where s = sj and SAMPLE = SAMPLE and k = "k + Suc j", OF stj accj sunj])
      (simp add: Let_def nz lt)
  then have "sensor_ticks cfg SAMPLE (Suc (Suc j)) (k, s) =
     (Suc (k + Suc j),
      sj\<lparr>sensor_code := SENSOR_OK,
         sensor_accumulator := sensor_accumulator sj + SAMPLE (k + Suc j),
         sensor_previous_temp := SAMPLE (k + Suc j), sensor_samples := sensor_samples sj + 1\<rparr>)"
    using IH by simp
  then have "sensor_ticks cfg SAMPLE (Suc (Suc j)) (k, s) =
     (k + Suc (Suc j),
      s\<lparr>sensor_code := SENSOR_OK, sensor_accumulator := (\<Sum>i<Suc (Suc j). SAMPLE (k + i)),
        sensor_previous_temp := SAMPLE (k + Suc j), sensor_samples := of_nat (Suc (Suc j))\<rparr>)"
    unfolding n by (simp add: sj_def)
  moreover have "fst (sensor_callback cfg SAMPLE (sensor_ticks cfg SAMPLE (Suc j) (k, s))) = SENSOR_OK"
    unfolding IH cb by simp
  ultimately show ?case by blast
qed

text \<open>The call that takes the last sample of the window.\<close>

lemma sensor_callback_completes:
  assumes st: "sensor_state s = SENSOR_HAS_NO_DATA \<or> sensor_state s = SENSOR_HAS_DATA"
    and acc: "sensor_samples s = 0
              \<or> (sensor_retries s \<noteq> 0 \<and> \<bar>SAMPLE k - sensor_previous_temp s\<bar> < sensor_variance s)"
    and sun: "SAMPLE k \<le> SURFACE_OF_THE_SUN cfg"
    and last: "Suc (unat (sensor_samples s)) = unat (sensor_samples_per_reading s)"
    and avg: "avg = ((if sensor_samples s = 0 then 0 else sensor_accumulator s) + SAMPLE k)
                     / real (unat (sensor_samples_per_reading s))"
  shows "fst (snd (sensor_callback cfg SAMPLE (k, s))) = Suc k
       \<and> sensor_temperature (snd (snd (sensor_callback cfg SAMPLE (k, s)))) = avg
       \<and> sensor_state (snd (snd (sensor_callback cfg SAMPLE (k, s))))
           = (if avg > SENSOR_DISCONNECTED_TEMPERATURE cfg \<or> avg < SENSOR_NO_POWER_TEMPERATURE cfg
              then SENSOR_HAS_NO_DATA else SENSOR_HAS_DATA)
       \<and> sensor_code (snd (snd (sensor_callback cfg SAMPLE (k, s))))
           = (if avg > SENSOR_DISCONNECTED_TEMPERATURE cfg then SENSOR_DISCONNECTED
              else if avg < SENSOR_NO_POWER_TEMPERATURE cfg then SENSOR_NO_POWER
              else SENSOR_OK)
       \<and> fst (sensor_callback cfg SAMPLE (k, s))
           = (if avg > SENSOR_DISCONNECTED_TEMPERATURE cfg then SENSOR_DISCONNECTED
              else if avg < SENSOR_NO_POWER_TEMPERATURE cfg then SENSOR_NO_POWER
              else SENSOR_OK)"
proof -
  have lt256: "unat (sensor_samples s) + 1 < 256"
    using last u8_unat_bound [of "sensor_samples_per_reading s"] by simp
  have un: "unat (sensor_samples s + 1) = Suc (unat (sensor_samples s))"
    using lt256 by (simp add: unat_word_ariths)
  have nlt: "\<not> sensor_samples s + 1 < sensor_samples_per_reading s"
    by (simp add: word_less_nat_alt un last)
  have div: "real (unat (sensor_samples s + 1)) = real (unat (sensor_samples_per_reading s))"
    by (simp add: un last)
  show ?thesis
    unfolding sensor_callback_accepted [where s = s and SAMPLE = SAMPLE and k = k, OF st acc sun]
      Let_def div avg [symmetric]
    using nlt by simp
qed

text \<open>
  Claim C3. A sensor in \<open>SENSOR_HAS_NO_DATA\<close> or \<open>SENSOR_HAS_DATA\<close> with no sample
  taken, \<open>N \<ge> 1\<close> samples per reading, a retry count that is not 0, and \<open>N\<close> readings
  of which none is above \<^verbatim>\<open>SURFACE_OF_THE_SUN\<close> and each is within the variance range
  of the one before. Then after \<open>j < N\<close> calls of \<^verbatim>\<open>sensor_callback\<close> the state and the
  stored temperature are as before, \<open>j\<close> samples and \<open>j\<close> readings have been taken, and
  each call but the \<open>N\<close>-th returns \<open>SENSOR_OK\<close>. After \<open>N\<close> calls the stored
  temperature is the arithmetic mean of the \<open>N\<close> readings; state and code are
  \<open>SENSOR_HAS_NO_DATA\<close> and \<open>SENSOR_DISCONNECTED\<close> when the mean is above
  \<^verbatim>\<open>SENSOR_DISCONNECTED_TEMPERATURE\<close>, else \<open>SENSOR_HAS_NO_DATA\<close> and
  \<open>SENSOR_NO_POWER\<close> when it is below \<^verbatim>\<open>SENSOR_NO_POWER_TEMPERATURE\<close>, else
  \<open>SENSOR_HAS_DATA\<close> and \<open>SENSOR_OK\<close>. The thresholds are the two macros, to which
  \<^verbatim>\<open>sensor_init\<close> also sets the two threshold fields.
\<close>

theorem sensor_reading_completes:
  assumes st: "sensor_state s = SENSOR_HAS_NO_DATA \<or> sensor_state s = SENSOR_HAS_DATA"
    and fresh: "sensor_samples s = 0"
    and N: "N = unat (sensor_samples_per_reading s)"
    and N1: "1 \<le> N"
    and retries: "sensor_retries s \<noteq> 0"
    and sun: "\<forall>i<N. SAMPLE (k + i) \<le> SURFACE_OF_THE_SUN cfg"
    and var: "\<forall>i. Suc i < N \<longrightarrow> \<bar>SAMPLE (k + Suc i) - SAMPLE (k + i)\<bar> < sensor_variance s"
    and avg: "avg = (\<Sum>i<N. SAMPLE (k + i)) / real N"
  shows "(\<forall>j<N. sensor_state (snd (sensor_ticks cfg SAMPLE j (k, s))) = sensor_state s
              \<and> sensor_temperature (snd (sensor_ticks cfg SAMPLE j (k, s))) = sensor_temperature s
              \<and> unat (sensor_samples (snd (sensor_ticks cfg SAMPLE j (k, s)))) = j
              \<and> fst (sensor_ticks cfg SAMPLE j (k, s)) = k + j)
       \<and> (\<forall>j. Suc j < N \<longrightarrow>
              fst (sensor_callback cfg SAMPLE (sensor_ticks cfg SAMPLE j (k, s))) = SENSOR_OK)
       \<and> sensor_temperature (snd (sensor_ticks cfg SAMPLE N (k, s))) = avg
       \<and> sensor_state (snd (sensor_ticks cfg SAMPLE N (k, s)))
           = (if avg > SENSOR_DISCONNECTED_TEMPERATURE cfg \<or> avg < SENSOR_NO_POWER_TEMPERATURE cfg
              then SENSOR_HAS_NO_DATA else SENSOR_HAS_DATA)
       \<and> sensor_code (snd (sensor_ticks cfg SAMPLE N (k, s)))
           = (if avg > SENSOR_DISCONNECTED_TEMPERATURE cfg then SENSOR_DISCONNECTED
              else if avg < SENSOR_NO_POWER_TEMPERATURE cfg then SENSOR_NO_POWER
              else SENSOR_OK)
       \<and> fst (sensor_ticks cfg SAMPLE N (k, s)) = k + N"
proof -
  define T where "T j = sensor_ticks cfg SAMPLE j (k, s)" for j
  define W where "W j = s\<lparr>sensor_code := SENSOR_OK,
        sensor_accumulator := (\<Sum>i<Suc j. SAMPLE (k + i)),
        sensor_previous_temp := SAMPLE (k + j), sensor_samples := of_nat (Suc j)\<rparr>" for j
  have N256: "N < 256" using N u8_unat_bound [of "sensor_samples_per_reading s"] by simp
  have mid: "T (Suc j) = (k + Suc j, W j)"
    and ret: "fst (sensor_callback cfg SAMPLE (T j)) = SENSOR_OK" if "Suc j < N" for j
    using sensor_ticks_sampling [OF st fresh N retries sun var that]
    unfolding T_def W_def by simp_all
  have T0: "T 0 = (k, s)" by (simp add: T_def)
  have before: "sensor_state (snd (T j)) = sensor_state s
              \<and> sensor_temperature (snd (T j)) = sensor_temperature s
              \<and> unat (sensor_samples (snd (T j))) = j
              \<and> fst (T j) = k + j" if "j < N" for j
  proof (cases j)
    case 0
    then show ?thesis by (simp add: T0 fresh)
  next
    case (Suc j')
    then have "Suc j' < N" using that by simp
    from mid [OF this] have eq: "T j = (k + j, W j')" by (simp add: Suc)
    have "unat (of_nat (Suc j') :: u8) = Suc j'"
      using \<open>Suc j' < N\<close> N256 by (intro u8_unat_of_nat) simp
    then show ?thesis unfolding eq by (simp add: W_def Suc)
  qed
  have final: "fst (snd (sensor_callback cfg SAMPLE (T (N - 1)))) = k + N
       \<and> sensor_temperature (snd (snd (sensor_callback cfg SAMPLE (T (N - 1))))) = avg
       \<and> sensor_state (snd (snd (sensor_callback cfg SAMPLE (T (N - 1)))))
           = (if avg > SENSOR_DISCONNECTED_TEMPERATURE cfg \<or> avg < SENSOR_NO_POWER_TEMPERATURE cfg
              then SENSOR_HAS_NO_DATA else SENSOR_HAS_DATA)
       \<and> sensor_code (snd (snd (sensor_callback cfg SAMPLE (T (N - 1)))))
           = (if avg > SENSOR_DISCONNECTED_TEMPERATURE cfg then SENSOR_DISCONNECTED
              else if avg < SENSOR_NO_POWER_TEMPERATURE cfg then SENSOR_NO_POWER
              else SENSOR_OK)"
  proof (cases "N = 1")
    case True
    have s0: "SAMPLE k \<le> SURFACE_OF_THE_SUN cfg" using sun True by simp
    have acc0: "sensor_samples s = 0
       \<or> (sensor_retries s \<noteq> 0 \<and> \<bar>SAMPLE k - sensor_previous_temp s\<bar> < sensor_variance s)"
      using fresh by simp
    have last: "Suc (unat (sensor_samples s)) = unat (sensor_samples_per_reading s)"
      using True N fresh by simp
    have a: "avg = ((if sensor_samples s = 0 then 0 else sensor_accumulator s) + SAMPLE k)
                     / real (unat (sensor_samples_per_reading s))"
      using avg True N fresh by simp
    show ?thesis
      using sensor_callback_completes
        [where s = s and SAMPLE = SAMPLE and k = k, OF st acc0 s0 last a]
      by (simp add: True T0)
  next
    case False
    with N1 have "2 \<le> N" by simp
    then have "N = Suc (Suc (N - 2))" by simp
    then obtain j where Nj: "N = Suc (Suc j)" ..
    have lt: "Suc j < N" by (simp add: Nj)
    have eq: "T (N - 1) = (k + Suc j, W j)" using mid [OF lt] by (simp add: Nj)
    have uj: "unat (of_nat (Suc j) :: u8) = Suc j"
      using lt N256 by (intro u8_unat_of_nat) simp
    have nz: "sensor_samples (W j) \<noteq> 0"
      using uj by (auto simp add: W_def)
    have stj: "sensor_state (W j) = SENSOR_HAS_NO_DATA \<or> sensor_state (W j) = SENSOR_HAS_DATA"
      using st by (simp add: W_def)
    have accj: "sensor_samples (W j) = 0
       \<or> (sensor_retries (W j) \<noteq> 0
          \<and> \<bar>SAMPLE (k + Suc j) - sensor_previous_temp (W j)\<bar> < sensor_variance (W j))"
      using retries var lt by (simp add: W_def)
    have sunj: "SAMPLE (k + Suc j) \<le> SURFACE_OF_THE_SUN cfg"
      using sun lt by blast
    have last: "Suc (unat (sensor_samples (W j))) = unat (sensor_samples_per_reading (W j))"
      using uj N Nj by (simp add: W_def)
    have a: "avg = ((if sensor_samples (W j) = 0 then 0 else sensor_accumulator (W j))
                      + SAMPLE (k + Suc j))
                     / real (unat (sensor_samples_per_reading (W j)))"
    proof -
      have "sensor_accumulator (W j) + SAMPLE (k + Suc j) = (\<Sum>i<N. SAMPLE (k + i))"
        by (simp add: W_def Nj)
      moreover have "unat (sensor_samples_per_reading (W j)) = N"
        using N by (simp add: W_def)
      ultimately show ?thesis using nz avg by simp
    qed
    show ?thesis
      using sensor_callback_completes
        [where s = "W j" and SAMPLE = SAMPLE and k = "k + Suc j", OF stj accj sunj last a]
      unfolding eq by (simp add: Nj)
  qed
  have TN: "T N = snd (sensor_callback cfg SAMPLE (T (N - 1)))"
  proof -
    from N1 obtain n where "N = Suc n" by (cases N) simp_all
    then show ?thesis by (simp add: T_def)
  qed
  show ?thesis
    unfolding T_def [symmetric]
    using before ret final by (simp add: TN)
qed

theorem sensor_reading_completes_witness:
  "sensor_temperature (snd (sensor_ticks scenario_config ramp_samples 3 (0, window_sensor))) = 101
   \<and> sensor_state (snd (sensor_ticks scenario_config ramp_samples 3 (0, window_sensor))) = SENSOR_HAS_DATA
   \<and> sensor_code (snd (sensor_ticks scenario_config ramp_samples 3 (0, window_sensor))) = SENSOR_OK
   \<and> sensor_state (snd (sensor_ticks scenario_config ramp_samples 2 (0, window_sensor))) = SENSOR_HAS_NO_DATA
   \<and> fst (sensor_callback scenario_config ramp_samples
             (sensor_ticks scenario_config ramp_samples 1 (0, window_sensor))) = SENSOR_OK"
proof -
  have st: "sensor_state window_sensor = SENSOR_HAS_NO_DATA
            \<or> sensor_state window_sensor = SENSOR_HAS_DATA"
    and fresh: "sensor_samples window_sensor = 0"
    and N: "3 = unat (sensor_samples_per_reading window_sensor)"
    and retries: "sensor_retries window_sensor \<noteq> 0"
    by (simp_all add: window_sensor_def sensor_init_def scenario_config_def)
  have N1: "1 \<le> (3 :: nat)" by simp
  have sun: "\<forall>i<3. ramp_samples (0 + i) \<le> SURFACE_OF_THE_SUN scenario_config"
    by (simp add: ramp_samples_def scenario_config_def)
  have var: "\<forall>i. Suc i < 3 \<longrightarrow>
      \<bar>ramp_samples (0 + Suc i) - ramp_samples (0 + i)\<bar> < sensor_variance window_sensor"
    by (simp add: ramp_samples_def window_sensor_def sensor_init_def scenario_config_def)
  have avg: "(101 :: real) = (\<Sum>i<3. ramp_samples (0 + i)) / real 3"
    by (simp add: ramp_samples_def eval_nat_numeral)
  have thr: "\<not> (101 > SENSOR_DISCONNECTED_TEMPERATURE scenario_config
               \<or> 101 < SENSOR_NO_POWER_TEMPERATURE scenario_config)"
    by (simp add: scenario_config_def)
  note R = sensor_reading_completes [where s = window_sensor and N = 3 and k = 0
        and SAMPLE = ramp_samples and cfg = scenario_config and avg = 101,
        OF st fresh N N1 retries sun var avg]
  have before: "sensor_state (snd (sensor_ticks scenario_config ramp_samples 2 (0, window_sensor)))
                  = sensor_state window_sensor"
    using R [THEN conjunct1, rule_format, of 2] by simp
  have ret: "fst (sensor_callback scenario_config ramp_samples
             (sensor_ticks scenario_config ramp_samples 1 (0, window_sensor))) = SENSOR_OK"
    using R [THEN conjunct2, THEN conjunct1, rule_format, of 1] by simp
  have s0: "sensor_state window_sensor = SENSOR_HAS_NO_DATA"
    by (simp add: window_sensor_def sensor_init_def)
  show ?thesis
    using R [THEN conjunct2, THEN conjunct2] thr before ret s0 by simp
qed

end
